theory Spec2Isabelle
  imports Complex_Main
begin

section \<open>Python values shared by the generator and the dispatcher\<close>

text \<open>
  Exceptions are values. Every exception the modelled code raises is a \<open>ValueError\<close>, a
  \<open>KeyError\<close>, a \<open>TypeError\<close> or an \<open>AttributeError\<close> with its message; \<open>MissingVariables\<close> is the \<open>ValueError\<close> of
  \<open>_validate_data\<close>, kept apart because its message is built from a set;
  \<open>LibraryError\<close> is an exception coming out of pandas, DoWhy or the file system, of
  which only the message is kept.
\<close>

datatype error =
    ValueError string
  | KeyError string
  | TypeError string
  | AttributeError string
  | MissingVariables "string list"
  | LibraryError string

text \<open>
  The DAG configuration is the JSON object as loaded: a key that may be absent is an
  option. \<open>variables\<close> is a dict in insertion order, \<open>edges\<close> the list of
  \<open>{"from": u, "to": v}\<close> objects read as pairs.
\<close>

record var_info =
  vtype :: "string option"

record dag_config =
  variables :: "(string \<times> var_info) list option"
  edges :: "(string \<times> string) list option"
  treatment_variable :: "string option"
  outcome_variable :: "string option"
  confounders :: "string list option"
  instruments :: "string list option"

text \<open>
  Pieces of message texts: a name in single quotes, a natural number in decimal, and the
  shape \<open>(n,)\<close> of a one-dimensional array.
\<close>

definition quoted :: "string \<Rightarrow> string" where
  "quoted s = CHR 0x27 # s @ [CHR 0x27]"

fun str_of_nat :: "nat \<Rightarrow> string" where
  "str_of_nat n =
     (if n < 10 then [''0123456789'' ! n]
      else str_of_nat (n div 10) @ [''0123456789'' ! (n mod 10)])"

declare str_of_nat.simps [simp del]

definition shape :: "nat \<Rightarrow> string" where
  "shape n = ''('' @ str_of_nat n @ '',)''"

text \<open>\<open>d.get(key, default)\<close> on an optional entry.\<close>

definition get_or :: "'a option \<Rightarrow> 'a \<Rightarrow> 'a" where
  "get_or entry dflt = (case entry of None \<Rightarrow> dflt | Some v \<Rightarrow> v)"

section \<open>The directed graph (networkx \<open>DiGraph\<close>)\<close>

text \<open>
  A \<open>DiGraph\<close> keeps its nodes and its edges in insertion order, each once.
  \<open>add_edge\<close> adds the endpoints that are not nodes yet; \<open>predecessors\<close> gives the
  parents of a node in the order in which their edges were added.
\<close>

record digraph =
  g_nodes :: "string list"
  g_edges :: "(string \<times> string) list"

definition DiGraph :: digraph where
  "DiGraph = \<lparr>g_nodes = [], g_edges = []\<rparr>"

definition add_node :: "string \<Rightarrow> digraph \<Rightarrow> digraph" where
  "add_node n G = (if n \<in> set (g_nodes G) then G else G\<lparr>g_nodes := g_nodes G @ [n]\<rparr>)"

definition add_edge :: "string \<times> string \<Rightarrow> digraph \<Rightarrow> digraph" where
  "add_edge e G =
     (let G1 = add_node (snd e) (add_node (fst e) G)
      in if e \<in> set (g_edges G1) then G1 else G1\<lparr>g_edges := g_edges G1 @ [e]\<rparr>)"

definition predecessors :: "digraph \<Rightarrow> string \<Rightarrow> string list" where
  "predecessors G v = map fst (filter (\<lambda>e. snd e = v) (g_edges G))"

text \<open>
  \<open>nx.is_directed_acyclic_graph\<close> is library code: it runs the topological sort by
  generations (Kahn) and answers whether every node was emitted. A generation is the
  nodes with no incoming edge from a node still present; \<open>peel\<close> removes generation
  after generation and returns the nodes that are never emitted.
\<close>

definition zero_indegree :: "string list \<Rightarrow> (string \<times> string) list \<Rightarrow> string list" where
  "zero_indegree ns es = filter (\<lambda>v. \<not> (\<exists>u \<in> set ns. (u, v) \<in> set es)) ns"

function peel :: "string list \<Rightarrow> (string \<times> string) list \<Rightarrow> string list" where
  "peel ns es =
     (if zero_indegree ns es = [] then ns
      else peel (filter (\<lambda>v. v \<notin> set (zero_indegree ns es)) ns) es)"
  by pat_completeness auto

lemma zero_indegree_subset: "set (zero_indegree ns es) \<subseteq> set ns"
  by (auto simp: zero_indegree_def)

lemma peel_decreases:
  assumes "zero_indegree ns es \<noteq> []"
  shows "length (filter (\<lambda>v. v \<notin> set (zero_indegree ns es)) ns) < length ns"
proof -
  from assms obtain x where x: "x \<in> set (zero_indegree ns es)"
    by (cases "zero_indegree ns es") auto
  with zero_indegree_subset have "x \<in> set ns" by blast
  with x show ?thesis by (intro length_filter_less [of x]) auto
qed

termination peel
  by (relation "measure (\<lambda>(ns, es). length ns)") (auto simp: peel_decreases)

declare peel.simps [simp del]

definition is_directed_acyclic_graph :: "digraph \<Rightarrow> bool" where
  "is_directed_acyclic_graph G = (peel (g_nodes G) (g_edges G) = [])"

section \<open>Synthetic data generator: graph construction\<close>

text \<open>
  \<open>SyntheticDataGenerator._build_graph\<close>, with \<open>self.variables\<close> and \<open>self.edges\<close> read
  by \<open>.get(..., {})\<close> and \<open>.get(..., [])\<close> as the constructor does.
\<close>

definition gen_variables :: "dag_config \<Rightarrow> (string \<times> var_info) list" where
  "gen_variables cfg = get_or (variables cfg) []"

definition gen_edges :: "dag_config \<Rightarrow> (string \<times> string) list" where
  "gen_edges cfg = get_or (edges cfg) []"

definition build_graph :: "dag_config \<Rightarrow> error + digraph" where
  "build_graph cfg =
     (let G = fold add_node (map fst (gen_variables cfg)) DiGraph;
          G = fold add_edge (gen_edges cfg) G
      in if \<not> is_directed_acyclic_graph G
         then Inl (ValueError ''The provided graph is not a DAG'')
         else Inr G)"

section \<open>Causal model context: graph construction\<close>

text \<open>
  \<open>CausalModel._build_networkx_graph\<close>: \<open>self.dag_config["variables"]\<close> and
  \<open>self.dag_config["edges"]\<close> raise \<open>KeyError\<close> when the key is absent; the graph is
  returned as built.
\<close>

definition build_networkx_graph :: "dag_config \<Rightarrow> error + digraph" where
  "build_networkx_graph cfg =
     (case variables cfg of
        None \<Rightarrow> Inl (KeyError ''variables'')
      | Some vars \<Rightarrow>
          (let graph = fold add_node (map fst vars) DiGraph
           in case edges cfg of
                None \<Rightarrow> Inl (KeyError ''edges'')
              | Some es \<Rightarrow> Inr (fold add_edge es graph)))"

text \<open>A configuration with the cycle \<open>A \<rightarrow> B \<rightarrow> A\<close>.\<close>

definition cyclic_config :: dag_config where
  "cyclic_config =
     \<lparr>variables = Some [(''A'', \<lparr>vtype = Some ''continuous''\<rparr>),
                         (''B'', \<lparr>vtype = Some ''continuous''\<rparr>)],
      edges = Some [(''A'', ''B''), (''B'', ''A'')],
      treatment_variable = Some ''A'',
      outcome_variable = Some ''B'',
      confounders = Some [],
      instruments = None\<rparr>"

section \<open>Synthetic data generator: continuous variables\<close>

text \<open>
  Columns are lists of reals: floating-point rounding is not modelled. The random
  generator is the sequence \<open>z\<close> of standard normal draws it yields at the call;
  \<open>np.random.normal(loc, scale, n)\<close> is \<open>loc + scale * z i\<close> for the \<open>n\<close> rows and
  raises on a negative scale. \<open>iadd\<close> is numpy's in-place \<open>values += other\<close>, which
  broadcasts a one-element operand and raises on any other length mismatch: a
  one-element target cannot take the broadcast result, and other lengths do not
  broadcast.
  \<open>data\<close> is the dict of the columns generated so far; \<open>data[parent]\<close> raises
  \<open>KeyError\<close> on a parent without a column. \<open>add_parents\<close> is the loop over the
  parents of \<open>_generate_continuous_variable\<close>.
\<close>

definition np_random_normal :: "(nat \<Rightarrow> real) \<Rightarrow> real \<Rightarrow> real \<Rightarrow> nat \<Rightarrow> error + real list" where
  "np_random_normal z loc scale n =
     (if scale < 0 then Inl (ValueError ''scale < 0'')
      else Inr (map (\<lambda>i. loc + scale * z i) [0..<n]))"

definition iadd :: "real list \<Rightarrow> real list \<Rightarrow> error + real list" where
  "iadd vals other =
     (if length other = length vals then Inr (map2 (+) vals other)
      else if length other = 1 then Inr (map (\<lambda>v. v + hd other) vals)
      else if length vals = 1
        then Inl (ValueError
               (''non-broadcastable output operand with shape (1,) doesn'' @ [CHR 0x27] @
                ''t match the broadcast shape '' @ shape (length other)))
      else Inl (ValueError
             (''operands could not be broadcast together with shapes '' @
              shape (length vals) @ '' '' @ shape (length other) @ '' '' @
              shape (length vals) @ '' '')))"

definition is_treatment_outcome_relationship :: "dag_config \<Rightarrow> string \<Rightarrow> string \<Rightarrow> bool" where
  "is_treatment_outcome_relationship cfg parent child =
     (let treatment_var = get_or (treatment_variable cfg) '''';
          outcome_var = get_or (outcome_variable cfg) ''''
      in parent = treatment_var \<and> child = outcome_var)"

definition is_confounder_relationship :: "dag_config \<Rightarrow> string \<Rightarrow> string \<Rightarrow> bool" where
  "is_confounder_relationship cfg parent child =
     (let confs = get_or (confounders cfg) [];
          treatment_var = get_or (treatment_variable cfg) '''';
          outcome_var = get_or (outcome_variable cfg) ''''
      in parent \<in> set confs \<and> (child = treatment_var \<or> child = outcome_var))"

fun add_parents ::
  "dag_config \<Rightarrow> string \<Rightarrow> (string \<rightharpoonup> real list) \<Rightarrow> real \<Rightarrow> real \<Rightarrow> string list \<Rightarrow> real list
   \<Rightarrow> error + real list" where
  "add_parents cfg var_name data treatment_effect confounder_strength [] vals = Inr vals"
| "add_parents cfg var_name data treatment_effect confounder_strength (parent # rest) vals =
     (case data parent of
        None \<Rightarrow> Inl (KeyError parent)
      | Some parent_values \<Rightarrow>
          (let coeff =
                 (if is_treatment_outcome_relationship cfg parent var_name then treatment_effect
                  else if is_confounder_relationship cfg parent var_name then confounder_strength
                  else 0.5)
           in case iadd vals (map (\<lambda>x. coeff * x) parent_values) of
                Inl e \<Rightarrow> Inl e
              | Inr vals' \<Rightarrow>
                  add_parents cfg var_name data treatment_effect confounder_strength rest vals'))"

definition generate_continuous_variable ::
  "dag_config \<Rightarrow> (nat \<Rightarrow> real) \<Rightarrow> nat \<Rightarrow> string \<Rightarrow> string list \<Rightarrow> (string \<rightharpoonup> real list)
   \<Rightarrow> real \<Rightarrow> real \<Rightarrow> real \<Rightarrow> error + real list" where
  "generate_continuous_variable cfg z n_samples var_name parents data
       treatment_effect noise_std confounder_strength =
     (if parents = [] then np_random_normal z 0 1 n_samples
      else case np_random_normal z 0 noise_std n_samples of
             Inl e \<Rightarrow> Inl e
           | Inr vals \<Rightarrow>
               add_parents cfg var_name data treatment_effect confounder_strength parents vals)"

text \<open>
  The coefficient of an edge in the words of the specification, over the declared roles:
  the treatment effect on the declared treatment-to-outcome edge, the confounder strength
  from a declared confounder into the treatment or the outcome, and 0.5 otherwise.
\<close>

definition coefficient :: "dag_config \<Rightarrow> real \<Rightarrow> real \<Rightarrow> string \<Rightarrow> string \<Rightarrow> real" where
  "coefficient cfg treatment_effect confounder_strength parent child =
     (if treatment_variable cfg = Some parent \<and> outcome_variable cfg = Some child
        then treatment_effect
      else if parent \<in> set (get_or (confounders cfg) []) \<and>
              (treatment_variable cfg = Some child \<or> outcome_variable cfg = Some child)
        then confounder_strength
      else 0.5)"

text \<open>The confounder triangle \<open>X \<rightarrow> T\<close>, \<open>X \<rightarrow> Y\<close>, \<open>T \<rightarrow> Y\<close> and two generated rows.\<close>

definition triangle_config :: dag_config where
  "triangle_config =
     \<lparr>variables = Some [(''X'', \<lparr>vtype = Some ''continuous''\<rparr>),
                         (''T'', \<lparr>vtype = Some ''continuous''\<rparr>),
                         (''Y'', \<lparr>vtype = Some ''continuous''\<rparr>)],
      edges = Some [(''X'', ''T''), (''X'', ''Y''), (''T'', ''Y'')],
      treatment_variable = Some ''T'',
      outcome_variable = Some ''Y'',
      confounders = Some [''X''],
      instruments = None\<rparr>"

definition triangle_data :: "string \<rightharpoonup> real list" where
  "triangle_data = [''X'' \<mapsto> [1, 2], ''T'' \<mapsto> [0, 1]]"

section \<open>Tables and column statistics (pandas)\<close>

text \<open>
  A table is its column names and its rows; a cell is a real number (tables without
  missing cells; rounding is not modelled). A floating-point result that can be NaN is a
  \<open>real option\<close> with \<open>None\<close> for NaN, and arithmetic and comparisons on such values
  follow IEEE: NaN propagates and every comparison with NaN is false.
\<close>

type_synonym row = "string \<Rightarrow> real"

record table =
  columns :: "string list"
  rows :: "row list"

type_synonym pyfloat = "real option"

definition isnan :: "pyfloat \<Rightarrow> bool" where
  "isnan x = (x = None)"

definition fadd :: "pyfloat \<Rightarrow> pyfloat \<Rightarrow> pyfloat" where
  "fadd a b = (case a of None \<Rightarrow> None | Some x \<Rightarrow> (case b of None \<Rightarrow> None | Some y \<Rightarrow> Some (x + y)))"

definition fsub :: "pyfloat \<Rightarrow> pyfloat \<Rightarrow> pyfloat" where
  "fsub a b = (case a of None \<Rightarrow> None | Some x \<Rightarrow> (case b of None \<Rightarrow> None | Some y \<Rightarrow> Some (x - y)))"

definition fmul :: "pyfloat \<Rightarrow> pyfloat \<Rightarrow> pyfloat" where
  "fmul a b = (case a of None \<Rightarrow> None | Some x \<Rightarrow> (case b of None \<Rightarrow> None | Some y \<Rightarrow> Some (x * y)))"

definition fabs :: "pyfloat \<Rightarrow> pyfloat" where
  "fabs a = map_option abs a"

definition fgt :: "pyfloat \<Rightarrow> pyfloat \<Rightarrow> bool" where
  "fgt a b = (case a of None \<Rightarrow> False | Some x \<Rightarrow> (case b of None \<Rightarrow> False | Some y \<Rightarrow> x > y))"

text \<open>\<open>data[c]\<close>: the column, or \<open>KeyError\<close>.\<close>

definition col :: "string \<Rightarrow> row list \<Rightarrow> real list" where
  "col c rs = map (\<lambda>r. r c) rs"

definition getitem :: "table \<Rightarrow> string \<Rightarrow> error + real list" where
  "getitem data c =
     (if c \<in> set (columns data) then Inr (col c (rows data)) else Inl (KeyError c))"

text \<open>
  \<open>Series.mean\<close> is NaN on no rows; \<open>Series.std\<close> is the sample standard deviation
  (\<open>ddof = 1\<close>), NaN on fewer than two rows; \<open>Series.corr\<close> is Pearson's coefficient, NaN
  on no rows and when either column has no spread.
\<close>

definition avg :: "real list \<Rightarrow> real" where
  "avg xs = sum_list xs / real (length xs)"

definition mean :: "real list \<Rightarrow> pyfloat" where
  "mean xs = (if xs = [] then None else Some (avg xs))"

definition std :: "real list \<Rightarrow> pyfloat" where
  "std xs =
     (if length xs < 2 then None
      else Some (sqrt (sum_list (map (\<lambda>x. (x - avg xs)\<^sup>2) xs) / real (length xs - 1))))"

definition corr :: "real list \<Rightarrow> real list \<Rightarrow> pyfloat" where
  "corr xs ys =
     (if xs = [] then None
      else let sxx = sum_list (map (\<lambda>x. (x - avg xs)\<^sup>2) xs);
               syy = sum_list (map (\<lambda>y. (y - avg ys)\<^sup>2) ys);
               sxy = sum_list (map2 (\<lambda>x y. (x - avg xs) * (y - avg ys)) xs ys)
           in if sxx = 0 \<or> syy = 0 then None else Some (sxy / sqrt (sxx * syy)))"

text \<open>
  A dict whose iteration order matters is an association list with distinct keys in
  insertion order: \<open>d[k] = v\<close> replaces the value of a present key in place and appends
  a new key.
\<close>

fun dict_set :: "'k \<Rightarrow> 'v \<Rightarrow> ('k \<times> 'v) list \<Rightarrow> ('k \<times> 'v) list" where
  "dict_set k v [] = [(k, v)]"
| "dict_set k v (kv # kvs) = (if fst kv = k then (k, v) # kvs else kv # dict_set k v kvs)"

text \<open>
  \<open>max(keys, key=f)\<close>: the first key in iteration order whose value no later key
  exceeds; \<open>ValueError\<close> on no keys.
\<close>

definition py_max :: "('a \<Rightarrow> pyfloat) \<Rightarrow> 'a list \<Rightarrow> error + 'a" where
  "py_max f xs =
     (case xs of
        [] \<Rightarrow> Inl (ValueError ''max() arg is an empty sequence'')
      | x # rest \<Rightarrow> Inr (fold (\<lambda>y best. if fgt (f y) (f best) then y else best) rest x))"

text \<open>\<open>sub in s\<close> on strings.\<close>

definition contains :: "string \<Rightarrow> string \<Rightarrow> bool" where
  "contains sub s = list_ex (\<lambda>i. take (length sub) (drop i s) = sub) [0..<Suc (length s)]"

text \<open>\<open>str(e)\<close> of an exception; a \<open>KeyError\<close> prints its key in quotes.\<close>

fun comma_sep :: "string list \<Rightarrow> string" where
  "comma_sep [] = []"
| "comma_sep [s] = s"
| "comma_sep (s # t # ss) = s @ '', '' @ comma_sep (t # ss)"

fun str_of_error :: "error \<Rightarrow> string" where
  "str_of_error (ValueError m) = m"
| "str_of_error (KeyError k) = quoted k"
| "str_of_error (TypeError m) = m"
| "str_of_error (AttributeError m) = m"
| "str_of_error (LibraryError m) = m"
| "str_of_error (MissingVariables ms) =
     ''Data is missing required variables: {'' @ comma_sep (map quoted ms) @ ''}''"

section \<open>Causal model context\<close>

text \<open>
  DoWhy is an external collaborator. Its model object is the pair of its answers:
  \<open>identify_effect()\<close> and \<open>estimate_effect(estimand, method_name)\<close>, each a value or
  the message of a raised exception. An estimate is an object with a \<open>value\<close>
  attribute (which \<open>float\<close> may reject) or a plain number. The environment holds what
  the code reads from outside: the CSV reader, the JSON loader and DoWhy's constructor,
  each answering with a value or the message of the exception it raises.
\<close>

type_synonym estimand = string

datatype estimate_obj = EstimateObject "real option" | EstimateNumber real

record dowhy_model =
  dw_identify_effect :: "string + estimand"
  dw_estimate_effect :: "estimand \<Rightarrow> string \<Rightarrow> string + estimate_obj"

record dowhy_args =
  da_data :: table
  da_treatment :: string
  da_outcome :: string
  da_graph :: "digraph option"
  da_instruments :: "string list option"
  da_common_causes :: "string list option"

record env =
  read_csv :: "string \<Rightarrow> string + table"
  json_load :: "string \<Rightarrow> string + dag_config"
  DoWhyCausalModel :: "dowhy_args \<Rightarrow> string + dowhy_model"

definition external :: "string + 'a \<Rightarrow> error + 'a" where
  "external answer = (case answer of Inl msg \<Rightarrow> Inl (LibraryError msg) | Inr v \<Rightarrow> Inr v)"

datatype config_source = ConfigPath string | ConfigDict dag_config | ConfigOther

record causal_model =
  cm_dag_config :: dag_config
  cm_data :: "table option"
  cm_dowhy_model :: "dowhy_model option"
  cm_graph :: digraph

definition load_dag_config :: "env \<Rightarrow> config_source \<Rightarrow> error + dag_config" where
  "load_dag_config ev src =
     (case src of
        ConfigPath p \<Rightarrow> external (json_load ev p)
      | ConfigDict d \<Rightarrow> Inr d
      | ConfigOther \<Rightarrow> Inl (ValueError ''dag_config must be a file path or dictionary''))"

text \<open>\<open>not treatment\<close>: the entry is absent, \<open>None\<close> or the empty string.\<close>

definition falsy :: "string option \<Rightarrow> bool" where
  "falsy s = (case s of None \<Rightarrow> True | Some t \<Rightarrow> t = [])"

text \<open>
  The two attempts of \<open>_create_dowhy_model\<close>: with the graph and the instruments, and
  on any exception again without them.
\<close>

definition new_dowhy_model ::
  "env \<Rightarrow> dag_config \<Rightarrow> digraph \<Rightarrow> table \<Rightarrow> string \<Rightarrow> string \<Rightarrow> string + dowhy_model" where
  "new_dowhy_model ev cfg graph data treatment outcome =
     (case DoWhyCausalModel ev
             \<lparr>da_data = data, da_treatment = treatment, da_outcome = outcome,
              da_graph = Some graph,
              da_instruments = instruments cfg,
              da_common_causes = confounders cfg\<rparr> of
        Inr m \<Rightarrow> Inr m
      | Inl e \<Rightarrow>
          DoWhyCausalModel ev
            \<lparr>da_data = data, da_treatment = treatment, da_outcome = outcome,
             da_graph = None,
             da_instruments = None,
             da_common_causes = confounders cfg\<rparr>)"

definition create_dowhy_model :: "env \<Rightarrow> causal_model \<Rightarrow> error + causal_model" where
  "create_dowhy_model ev cm =
     (case cm_data cm of
        None \<Rightarrow> Inl (ValueError ''Data must be attached before creating DoWhy model'')
      | Some data \<Rightarrow>
          (let treatment = treatment_variable (cm_dag_config cm);
               outcome = outcome_variable (cm_dag_config cm)
           in if falsy treatment \<or> falsy outcome
              then Inl (ValueError
                     ''DAG configuration must specify treatment_variable and outcome_variable'')
              else
                (case new_dowhy_model ev (cm_dag_config cm) (cm_graph cm) data
                        (the treatment) (the outcome) of
                   Inr m \<Rightarrow> Inr (cm\<lparr>cm_dowhy_model := Some m\<rparr>)
                 | Inl e2 \<Rightarrow> Inl (ValueError (''DoWhy model creation failed: '' @ e2)))))"

text \<open>\<open>CausalModel.__init__(dag_config, data)\<close>.\<close>

definition CausalModel :: "env \<Rightarrow> config_source \<Rightarrow> table option \<Rightarrow> error + causal_model" where
  "CausalModel ev src data =
     (case load_dag_config ev src of
        Inl e \<Rightarrow> Inl e
      | Inr cfg \<Rightarrow>
          (case build_networkx_graph cfg of
             Inl e \<Rightarrow> Inl e
           | Inr graph \<Rightarrow>
               (let cm = \<lparr>cm_dag_config = cfg, cm_data = data, cm_dowhy_model = None,
                          cm_graph = graph\<rparr>
                in if data \<noteq> None then create_dowhy_model ev cm else Inr cm)))"

text \<open>
  \<open>_validate_data\<close>: the declared variables without a column, in declaration order (the
  source builds a set; its printing order is not fixed).
\<close>

definition validate_data :: "causal_model \<Rightarrow> error + unit" where
  "validate_data cm =
     (case cm_data cm of
        None \<Rightarrow> Inr ()
      | Some data \<Rightarrow>
          (case variables (cm_dag_config cm) of
             None \<Rightarrow> Inl (KeyError ''variables'')
           | Some vars \<Rightarrow>
               (let missing_vars = filter (\<lambda>v. v \<notin> set (columns data)) (remdups (map fst vars))
                in if missing_vars \<noteq> [] then Inl (MissingVariables missing_vars) else Inr ())))"

definition attach_data :: "env \<Rightarrow> causal_model \<Rightarrow> table \<Rightarrow> error + causal_model" where
  "attach_data ev cm data =
     (let cm1 = cm\<lparr>cm_data := Some data\<rparr>
      in case validate_data cm1 of
           Inl e \<Rightarrow> Inl e
         | Inr u \<Rightarrow> create_dowhy_model ev cm1)"

definition identify_effect :: "causal_model \<Rightarrow> error + estimand" where
  "identify_effect cm =
     (case cm_dowhy_model cm of
        None \<Rightarrow> Inl (ValueError ''DoWhy model not created. Attach data first.'')
      | Some m \<Rightarrow> external (dw_identify_effect m))"

definition estimate_effect :: "causal_model \<Rightarrow> estimand \<Rightarrow> string \<Rightarrow> error + estimate_obj" where
  "estimate_effect cm identified_estimand method_name =
     (case cm_dowhy_model cm of
        None \<Rightarrow> Inl (ValueError ''DoWhy model not created. Attach data first.'')
      | Some m \<Rightarrow> external (dw_estimate_effect m identified_estimand method_name))"

section \<open>Queries and results\<close>

text \<open>
  The query is the JSON object: every key may be absent, and a present key holds a value
  of its documented type. The keys that the handlers read with \<open>.get\<close> and never use
  (\<open>confounders\<close>, \<open>treatment_value\<close>, \<open>time_window\<close>, \<open>constraints\<close>,
  \<open>evidence_variables\<close>) are left out. A scenario is a dict from variable names to
  values, in insertion order.
\<close>

record query =
  query_type :: "string option"
  q_treatment_variable :: "string option"
  q_outcome_variable :: "string option"
  q_anomaly_threshold :: "real option"
  q_potential_causes :: "string list option"
  q_target_variable :: "string option"
  q_baseline_period :: "string option"
  q_comparison_period :: "string option"
  q_potential_drivers :: "string list option"
  q_intervention_variable :: "string option"
  q_intervention_value :: "real option"
  q_outcome_variables :: "string list option"
  q_factual_scenario :: "(string \<times> real) list option"
  q_counterfactual_scenario :: "(string \<times> real) list option"

text \<open>\<open>query_json[key]\<close>.\<close>

definition required :: "string \<Rightarrow> 'a option \<Rightarrow> error + 'a" where
  "required key entry = (case entry of None \<Rightarrow> Inl (KeyError key) | Some v \<Rightarrow> Inr v)"

text \<open>
  A summary is the list of the pieces its f-string joins; how a number is printed is
  left open.
\<close>

datatype piece = Txt string | Num pyfloat | Cnt nat

datatype method_report =
    Estimated string real "real \<times> real"
  | Failed string string

record effect_result =
  er_treatment_variable :: string
  er_outcome_variable :: string
  er_estimate :: real
  er_confidence_interval :: "real \<times> real"
  er_all_estimates :: "method_report list"
  er_summary :: "piece list"

record attribution_score =
  as_correlation :: real
  as_normal_mean :: real
  as_anomaly_mean :: real
  as_difference :: real

record anomaly_result =
  ar_outcome_variable :: string
  ar_anomaly_threshold :: "real option"
  ar_anomalies_found :: nat
  ar_attribution_scores :: "(string \<times> attribution_score) list"
  ar_summary :: "piece list"

record driver_contribution =
  dc_baseline_mean :: pyfloat
  dc_comparison_mean :: pyfloat
  dc_shift :: pyfloat
  dc_correlation_with_target :: real
  dc_estimated_contribution :: pyfloat

record shift_result =
  sr_target_variable :: string
  sr_baseline_mean :: pyfloat
  sr_comparison_mean :: pyfloat
  sr_shift_magnitude :: pyfloat
  sr_driver_contributions :: "(string \<times> driver_contribution) list"
  sr_summary :: "piece list"

record intervention_effect =
  ie_original_value :: pyfloat
  ie_intervened_value :: pyfloat
  ie_effect :: pyfloat

record intervention_result =
  ir_intervention_variable :: string
  ir_intervention_value :: real
  ir_intervention_effects :: "(string \<times> intervention_effect) list"
  ir_summary :: "piece list"

record counterfactual_result =
  cr_factual_scenario :: "(string \<times> real) list"
  cr_counterfactual_scenario :: "(string \<times> real) list"
  cr_outcome_variable :: string
  cr_factual_outcome :: pyfloat
  cr_counterfactual_outcome :: pyfloat
  cr_counterfactual_effect :: pyfloat
  cr_summary :: "piece list"

text \<open>
  The result dict. \<open>Failure tag msg\<close> is \<open>{"success": False, "query_type": tag, "error":
  msg}\<close>; \<open>EffectFailure\<close> is the failure of the effect handler that carries the
  per-method reports; every other constructor is a dict with \<open>"success": True\<close>.
\<close>

datatype result =
    Failure "string option" string
  | EffectFailure string "method_report list"
  | Effect effect_result
  | Anomaly anomaly_result
  | Shift shift_result
  | Intervention intervention_result
  | Counterfactual counterfactual_result

fun success :: "result \<Rightarrow> bool" where
  "success (Failure tag msg) = False"
| "success (EffectFailure msg reports) = False"
| "success r = True"

fun error_of :: "result \<Rightarrow> string option" where
  "error_of (Failure tag msg) = Some msg"
| "error_of (EffectFailure msg reports) = Some msg"
| "error_of r = None"

text \<open>The \<open>except Exception as e\<close> of a handler.\<close>

definition fail_soft :: "string \<Rightarrow> error + result \<Rightarrow> result" where
  "fail_soft tag body = (case body of Inl e \<Rightarrow> Failure (Some tag) (str_of_error e) | Inr r \<Rightarrow> r)"

text \<open>
  \<open>causal_model.data\<close> used as a table. With no table attached the first use of
  \<open>None\<close> raises, and the handlers differ in that first use: subscripting is a
  \<open>TypeError\<close>, reading the attribute \<open>iloc\<close> or \<open>copy\<close> an \<open>AttributeError\<close>.
\<close>

definition the_data :: "causal_model \<Rightarrow> error \<Rightarrow> error + table" where
  "the_data cm no_table =
     (case cm_data cm of
        None \<Rightarrow> Inl no_table
      | Some data \<Rightarrow> Inr data)"

definition not_subscriptable :: error where
  "not_subscriptable = TypeError (quoted ''NoneType'' @ '' object is not subscriptable'')"

definition no_attribute :: "string \<Rightarrow> error" where
  "no_attribute name =
     AttributeError (quoted ''NoneType'' @ '' object has no attribute '' @ quoted name)"

section \<open>Effect estimation\<close>

definition methods :: "string list" where
  "methods = [''backdoor.linear_regression'', ''backdoor.propensity_score_stratification'']"

definition float_of_estimate :: "estimate_obj \<Rightarrow> error + real" where
  "float_of_estimate estimate =
     (case estimate of
        EstimateObject None \<Rightarrow>
          Inl (TypeError (''float() argument must be a string or a real number, not '' @
                          quoted ''NoneType''))
      | EstimateObject (Some v) \<Rightarrow> Inr v
      | EstimateNumber v \<Rightarrow> Inr v)"

text \<open>One turn of the loop over the methods: the entry appended to \<open>estimates\<close>.\<close>

definition try_method :: "causal_model \<Rightarrow> estimand \<Rightarrow> string \<Rightarrow> method_report" where
  "try_method cm identified_estimand method =
     (case estimate_effect cm identified_estimand method of
        Inl method_error \<Rightarrow> Failed method (str_of_error method_error)
      | Inr estimate \<Rightarrow>
          (case float_of_estimate estimate of
             Inl method_error \<Rightarrow> Failed method (str_of_error method_error)
           | Inr estimate_value \<Rightarrow>
               Estimated method estimate_value
                 (estimate_value - 1.96 * \<bar>estimate_value\<bar> * 0.1,
                  estimate_value + 1.96 * \<bar>estimate_value\<bar> * 0.1)))"

fun has_estimate :: "method_report \<Rightarrow> bool" where
  "has_estimate (Estimated m v ci) = True"
| "has_estimate (Failed m e) = False"

definition effect_estimation_body :: "query \<Rightarrow> causal_model \<Rightarrow> error + result" where
  "effect_estimation_body q cm =
     (case required ''treatment_variable'' (q_treatment_variable q) of
        Inl e \<Rightarrow> Inl e
      | Inr treatment_var \<Rightarrow>
     (case required ''outcome_variable'' (q_outcome_variable q) of
        Inl e \<Rightarrow> Inl e
      | Inr outcome_var \<Rightarrow>
     (case identify_effect cm of
        Inl e \<Rightarrow> Inl e
      | Inr identified_estimand \<Rightarrow>
          (let estimates = map (try_method cm identified_estimand) methods
           in case find has_estimate estimates of
                Some (Estimated m v ci) \<Rightarrow>
                  Inr (Effect
                    \<lparr>er_treatment_variable = treatment_var,
                     er_outcome_variable = outcome_var,
                     er_estimate = v,
                     er_confidence_interval = ci,
                     er_all_estimates = estimates,
                     er_summary = [Txt ''Estimated causal effect of '', Txt treatment_var,
                                   Txt '' on '', Txt outcome_var, Txt '': '', Num (Some v)]\<rparr>)
              | _ \<Rightarrow> Inr (EffectFailure ''All estimation methods failed'' estimates)))))"

definition handle_effect_estimation :: "query \<Rightarrow> causal_model \<Rightarrow> result" where
  "handle_effect_estimation q cm = fail_soft ''effect_estimation'' (effect_estimation_body q cm)"

section \<open>Anomaly attribution\<close>

text \<open>
  \<open>anomalies\<close> is the boolean mask \<open>outcome_values > anomaly_threshold\<close>;
  \<open>select flags xs\<close> is \<open>xs[flags]\<close>.
\<close>

definition select :: "bool list \<Rightarrow> 'a list \<Rightarrow> 'a list" where
  "select flags xs = map snd (filter fst (zip flags xs))"

definition score_cause ::
  "table \<Rightarrow> real list \<Rightarrow> bool list \<Rightarrow> string \<Rightarrow> attribution_score" where
  "score_cause data outcome_values anomalies cause =
     (let correlation = corr (col cause (rows data)) outcome_values;
          normal_mean = mean (select (map Not anomalies) (col cause (rows data)));
          anomaly_mean = mean (select anomalies (col cause (rows data)))
      in \<lparr>as_correlation = (if \<not> isnan correlation then the correlation else 0),
          as_normal_mean = (if \<not> isnan normal_mean then the normal_mean else 0),
          as_anomaly_mean = (if \<not> isnan anomaly_mean then the anomaly_mean else 0),
          as_difference =
            (if \<not> (isnan anomaly_mean \<or> isnan normal_mean)
             then the anomaly_mean - the normal_mean else 0)\<rparr>)"

definition attribution_loop ::
  "table \<Rightarrow> real list \<Rightarrow> bool list \<Rightarrow> string list \<Rightarrow> (string \<times> attribution_score) list" where
  "attribution_loop data outcome_values anomalies potential_causes =
     fold (\<lambda>cause scores.
             if cause \<in> set (columns data)
             then dict_set cause (score_cause data outcome_values anomalies cause) scores
             else scores)
          potential_causes []"

definition anomaly_attribution_body :: "query \<Rightarrow> causal_model \<Rightarrow> error + result" where
  "anomaly_attribution_body q cm =
     (case required ''outcome_variable'' (q_outcome_variable q) of
        Inl e \<Rightarrow> Inl e
      | Inr outcome_var \<Rightarrow>
     (case required ''anomaly_threshold'' (q_anomaly_threshold q) of
        Inl e \<Rightarrow> Inl e
      | Inr anomaly_threshold \<Rightarrow>
     (case required ''potential_causes'' (q_potential_causes q) of
        Inl e \<Rightarrow> Inl e
      | Inr potential_causes \<Rightarrow>
     (case the_data cm not_subscriptable of
        Inl e \<Rightarrow> Inl e
      | Inr data \<Rightarrow>
     (case getitem data outcome_var of
        Inl e \<Rightarrow> Inl e
      | Inr outcome_values \<Rightarrow>
          (let anomalies = map (\<lambda>v. v > anomaly_threshold) outcome_values
           in if \<not> (True \<in> set anomalies)
              then Inr (Anomaly
                     \<lparr>ar_outcome_variable = outcome_var,
                      ar_anomaly_threshold = None,
                      ar_anomalies_found = 0,
                      ar_attribution_scores = [],
                      ar_summary = [Txt ''No anomalies found above threshold '',
                                    Num (Some anomaly_threshold)]\<rparr>)
              else
                (let attribution_scores =
                       attribution_loop data outcome_values anomalies potential_causes
                 in case py_max (\<lambda>kv. Some \<bar>as_correlation (snd kv)\<bar>) attribution_scores of
                      Inl e \<Rightarrow> Inl e
                    | Inr best \<Rightarrow>
                        Inr (Anomaly
                          \<lparr>ar_outcome_variable = outcome_var,
                           ar_anomaly_threshold = Some anomaly_threshold,
                           ar_anomalies_found = length (filter id anomalies),
                           ar_attribution_scores = attribution_scores,
                           ar_summary = [Txt ''Found '', Cnt (length (filter id anomalies)),
                                         Txt '' anomalies in '', Txt outcome_var,
                                         Txt ''. Top contributor: '', Txt (fst best)]\<rparr>))))))))"

definition handle_anomaly_attribution :: "query \<Rightarrow> causal_model \<Rightarrow> result" where
  "handle_anomaly_attribution q cm =
     fail_soft ''anomaly_attribution'' (anomaly_attribution_body q cm)"

section \<open>Distribution shift attribution\<close>

definition driver_entry :: "table \<Rightarrow> string \<Rightarrow> string \<Rightarrow> driver_contribution" where
  "driver_entry data target_var driver =
     (let baseline_data = take (length (rows data) div 2) (rows data);
          comparison_data = drop (length (rows data) div 2) (rows data);
          baseline_driver_mean = mean (col driver baseline_data);
          comparison_driver_mean = mean (col driver comparison_data);
          driver_shift = fsub comparison_driver_mean baseline_driver_mean;
          correlation = corr (col driver (rows data)) (col target_var (rows data));
          contribution = (if \<not> isnan correlation then fmul driver_shift correlation else Some 0)
      in \<lparr>dc_baseline_mean = baseline_driver_mean,
          dc_comparison_mean = comparison_driver_mean,
          dc_shift = driver_shift,
          dc_correlation_with_target = (if \<not> isnan correlation then the correlation else 0),
          dc_estimated_contribution = contribution\<rparr>)"

definition driver_loop ::
  "table \<Rightarrow> string \<Rightarrow> string list \<Rightarrow> (string \<times> driver_contribution) list" where
  "driver_loop data target_var potential_drivers =
     fold (\<lambda>driver contributions.
             if driver \<in> set (columns data)
             then dict_set driver (driver_entry data target_var driver) contributions
             else contributions)
          potential_drivers []"

definition distribution_shift_body :: "query \<Rightarrow> causal_model \<Rightarrow> error + result" where
  "distribution_shift_body q cm =
     (case required ''target_variable'' (q_target_variable q) of
        Inl e \<Rightarrow> Inl e
      | Inr target_var \<Rightarrow>
     (case required ''baseline_period'' (q_baseline_period q) of
        Inl e \<Rightarrow> Inl e
      | Inr baseline_period \<Rightarrow>
     (case required ''comparison_period'' (q_comparison_period q) of
        Inl e \<Rightarrow> Inl e
      | Inr comparison_period \<Rightarrow>
     (case required ''potential_drivers'' (q_potential_drivers q) of
        Inl e \<Rightarrow> Inl e
      | Inr potential_drivers \<Rightarrow>
     (case the_data cm (no_attribute ''iloc'') of
        Inl e \<Rightarrow> Inl e
      | Inr data \<Rightarrow>
          (let baseline_data = take (length (rows data) div 2) (rows data);
               comparison_data = drop (length (rows data) div 2) (rows data)
           in if target_var \<notin> set (columns data) then Inl (KeyError target_var)
           else
          (let baseline_mean = mean (col target_var baseline_data);
               comparison_mean = mean (col target_var comparison_data);
               shift_magnitude = fsub comparison_mean baseline_mean;
               driver_contributions = driver_loop data target_var potential_drivers
           in case py_max (\<lambda>kv. fabs (dc_estimated_contribution (snd kv)))
                     driver_contributions of
                Inl e \<Rightarrow> Inl e
              | Inr best \<Rightarrow>
                  Inr (Shift
                    \<lparr>sr_target_variable = target_var,
                     sr_baseline_mean = baseline_mean,
                     sr_comparison_mean = comparison_mean,
                     sr_shift_magnitude = shift_magnitude,
                     sr_driver_contributions = driver_contributions,
                     sr_summary = [Txt ''Distribution shift of '', Num shift_magnitude,
                                   Txt '' in '', Txt target_var,
                                   Txt ''. Main driver: '', Txt (fst best)]\<rparr>))))))))"

definition handle_distribution_shift_attribution :: "query \<Rightarrow> causal_model \<Rightarrow> result" where
  "handle_distribution_shift_attribution q cm =
     fail_soft ''distribution_shift_attribution'' (distribution_shift_body q cm)"

section \<open>Intervention\<close>

text \<open>
  The first loop fills \<open>original_outcomes\<close> and \<open>intervened_outcomes\<close>; the table copy on
  which the intervention variable is overwritten is never read again and is left out.
  The second loop builds \<open>intervention_effects\<close> and reads both dicts by key.
\<close>

definition intervened_outcome :: "table \<Rightarrow> string \<Rightarrow> real \<Rightarrow> string \<Rightarrow> pyfloat \<Rightarrow> pyfloat" where
  "intervened_outcome data intervention_var intervention_value outcome_var original =
     (if intervention_var \<in> set (columns data)
      then (let correlation = corr (col intervention_var (rows data)) (col outcome_var (rows data))
            in if \<not> isnan correlation
               then (let original_intervention_mean = mean (col intervention_var (rows data));
                         intervention_effect =
                           fmul (fsub (Some intervention_value) original_intervention_mean)
                                correlation
                     in fadd original intervention_effect)
               else original)
      else original)"

fun outcomes_loop ::
  "table \<Rightarrow> string \<Rightarrow> real \<Rightarrow> string list
   \<Rightarrow> (string \<times> pyfloat) list \<times> (string \<times> pyfloat) list
   \<Rightarrow> (string \<times> pyfloat) list \<times> (string \<times> pyfloat) list" where
  "outcomes_loop data intervention_var intervention_value [] dicts = dicts"
| "outcomes_loop data intervention_var intervention_value (outcome_var # rest)
       (original_outcomes, intervened_outcomes) =
     (if outcome_var \<in> set (columns data)
      then (let original = mean (col outcome_var (rows data))
            in outcomes_loop data intervention_var intervention_value rest
                 (dict_set outcome_var original original_outcomes,
                  dict_set outcome_var
                    (intervened_outcome data intervention_var intervention_value
                       outcome_var original)
                    intervened_outcomes))
      else outcomes_loop data intervention_var intervention_value rest
             (original_outcomes, intervened_outcomes))"

fun effects_loop ::
  "(string \<times> pyfloat) list \<Rightarrow> (string \<times> pyfloat) list \<Rightarrow> string list
   \<Rightarrow> (string \<times> intervention_effect) list \<Rightarrow> error + (string \<times> intervention_effect) list" where
  "effects_loop original_outcomes intervened_outcomes [] effects = Inr effects"
| "effects_loop original_outcomes intervened_outcomes (outcome_var # rest) effects =
     (case map_of original_outcomes outcome_var of
        None \<Rightarrow> effects_loop original_outcomes intervened_outcomes rest effects
      | Some original \<Rightarrow>
          (case map_of intervened_outcomes outcome_var of
             None \<Rightarrow> Inl (KeyError outcome_var)
           | Some intervened \<Rightarrow>
               effects_loop original_outcomes intervened_outcomes rest
                 (dict_set outcome_var
                    \<lparr>ie_original_value = original,
                     ie_intervened_value = intervened,
                     ie_effect = fsub intervened original\<rparr>
                    effects)))"

definition intervention_body :: "query \<Rightarrow> causal_model \<Rightarrow> error + result" where
  "intervention_body q cm =
     (case required ''intervention_variable'' (q_intervention_variable q) of
        Inl e \<Rightarrow> Inl e
      | Inr intervention_var \<Rightarrow>
     (case required ''intervention_value'' (q_intervention_value q) of
        Inl e \<Rightarrow> Inl e
      | Inr intervention_value \<Rightarrow>
     (case required ''outcome_variables'' (q_outcome_variables q) of
        Inl e \<Rightarrow> Inl e
      | Inr outcome_vars \<Rightarrow>
     (case the_data cm (no_attribute ''copy'') of
        Inl e \<Rightarrow> Inl e
      | Inr data \<Rightarrow>
          (let dicts = outcomes_loop data intervention_var intervention_value outcome_vars ([], [])
           in case effects_loop (fst dicts) (snd dicts) outcome_vars [] of
                Inl e \<Rightarrow> Inl e
              | Inr intervention_effects \<Rightarrow>
                  Inr (Intervention
                    \<lparr>ir_intervention_variable = intervention_var,
                     ir_intervention_value = intervention_value,
                     ir_intervention_effects = intervention_effects,
                     ir_summary = [Txt ''Intervening on '', Txt intervention_var, Txt '' to '',
                                   Num (Some intervention_value), Txt '' affects '',
                                   Cnt (length intervention_effects), Txt '' outcomes'']\<rparr>))))))"

definition handle_intervention :: "query \<Rightarrow> causal_model \<Rightarrow> result" where
  "handle_intervention q cm = fail_soft ''intervention'' (intervention_body q cm)"

section \<open>Counterfactual\<close>

text \<open>
  One turn of the filter loop keeps the rows of the current \<open>filtered_data\<close> whose value
  lies within the standard deviation of that column over the current \<open>filtered_data\<close>;
  a NaN deviation keeps no row.
\<close>

definition keep_close :: "string \<Rightarrow> real \<Rightarrow> row list \<Rightarrow> row list" where
  "keep_close var val filtered_data =
     (case std (col var filtered_data) of
        None \<Rightarrow> []
      | Some s \<Rightarrow> filter (\<lambda>r. \<bar>r var - val\<bar> \<le> s) filtered_data)"

fun filter_loop :: "table \<Rightarrow> (string \<times> real) list \<Rightarrow> row list \<Rightarrow> row list" where
  "filter_loop data [] filtered_data = filtered_data"
| "filter_loop data ((var, val) # rest) filtered_data =
     (if var \<in> set (columns data)
      then filter_loop data rest (keep_close var val filtered_data)
      else filter_loop data rest filtered_data)"

fun adjustment_loop ::
  "table \<Rightarrow> string \<Rightarrow> (string \<times> real) list \<Rightarrow> (string \<times> real) list \<Rightarrow> real \<Rightarrow> real" where
  "adjustment_loop data outcome_var factual_scenario [] counterfactual_adjustment =
     counterfactual_adjustment"
| "adjustment_loop data outcome_var factual_scenario ((var, cf_value) # rest)
       counterfactual_adjustment =
     (if var \<in> set (columns data) \<and> var \<in> fst ` set factual_scenario
      then (let factual_value = the (map_of factual_scenario var);
                correlation = corr (col var (rows data)) (col outcome_var (rows data))
            in if \<not> isnan correlation
               then adjustment_loop data outcome_var factual_scenario rest
                      (counterfactual_adjustment + (cf_value - factual_value) * the correlation)
               else adjustment_loop data outcome_var factual_scenario rest
                      counterfactual_adjustment)
      else adjustment_loop data outcome_var factual_scenario rest counterfactual_adjustment)"

definition counterfactual_body :: "query \<Rightarrow> causal_model \<Rightarrow> error + result" where
  "counterfactual_body q cm =
     (case required ''factual_scenario'' (q_factual_scenario q) of
        Inl e \<Rightarrow> Inl e
      | Inr factual_scenario \<Rightarrow>
     (case required ''counterfactual_scenario'' (q_counterfactual_scenario q) of
        Inl e \<Rightarrow> Inl e
      | Inr counterfactual_scenario \<Rightarrow>
     (case required ''outcome_variable'' (q_outcome_variable q) of
        Inl e \<Rightarrow> Inl e
      | Inr outcome_var \<Rightarrow>
     (case the_data cm (no_attribute ''copy'') of
        Inl e \<Rightarrow> Inl e
      | Inr data \<Rightarrow>
          (let filtered_data = filter_loop data factual_scenario (rows data);
               filtered_data = (if length filtered_data = 0 then rows data else filtered_data)
           in if outcome_var \<notin> set (columns data) then Inl (KeyError outcome_var)
              else
                (let factual_outcome = mean (col outcome_var filtered_data);
                     counterfactual_adjustment =
                       adjustment_loop data outcome_var factual_scenario
                         counterfactual_scenario 0;
                     counterfactual_outcome = fadd factual_outcome (Some counterfactual_adjustment)
                 in Inr (Counterfactual
                      \<lparr>cr_factual_scenario = factual_scenario,
                       cr_counterfactual_scenario = counterfactual_scenario,
                       cr_outcome_variable = outcome_var,
                       cr_factual_outcome = factual_outcome,
                       cr_counterfactual_outcome = counterfactual_outcome,
                       cr_counterfactual_effect = fsub counterfactual_outcome factual_outcome,
                       cr_summary = [Txt ''Counterfactual effect on '', Txt outcome_var,
                                     Txt '': '',
                                     Num (fsub counterfactual_outcome factual_outcome)]\<rparr>)))))))"

definition handle_counterfactual :: "query \<Rightarrow> causal_model \<Rightarrow> result" where
  "handle_counterfactual q cm = fail_soft ''counterfactual'' (counterfactual_body q cm)"

section \<open>The dispatcher\<close>

text \<open>\<open>f"{query_type}"\<close>: an absent tag prints as \<open>None\<close>.\<close>

definition str_of_tag :: "string option \<Rightarrow> string" where
  "str_of_tag tag = (case tag of None \<Rightarrow> ''None'' | Some t \<Rightarrow> t)"

definition route :: "query \<Rightarrow> causal_model \<Rightarrow> result" where
  "route q cm =
     (if query_type q = Some ''effect_estimation'' then handle_effect_estimation q cm
      else if query_type q = Some ''anomaly_attribution'' then handle_anomaly_attribution q cm
      else if query_type q = Some ''distribution_shift_attribution''
        then handle_distribution_shift_attribution q cm
      else if query_type q = Some ''intervention'' then handle_intervention q cm
      else if query_type q = Some ''counterfactual'' then handle_counterfactual q cm
      else Failure (query_type q) (''Unknown query type: '' @ str_of_tag (query_type q)))"

definition dispatch_query :: "env \<Rightarrow> query \<Rightarrow> string \<Rightarrow> string \<Rightarrow> result" where
  "dispatch_query ev q dag_path data_path =
     (case external (read_csv ev data_path) of
        Inl e \<Rightarrow> Failure (Some (get_or (query_type q) ''unknown'')) (str_of_error e)
      | Inr data \<Rightarrow>
          (case CausalModel ev (ConfigPath dag_path) (Some data) of
             Inl e \<Rightarrow> Failure (Some (get_or (query_type q) ''unknown'')) (str_of_error e)
           | Inr causal_model \<Rightarrow> route q causal_model))"

section \<open>The claims in the words of the specification\<close>



text \<open>
  The effect of an intervention: the distance of the intervention value from the mean of
  the intervention variable times the correlation with the outcome, and zero when the
  intervention variable is not a column or the correlation is NaN.
\<close>

definition intervention_effect_of :: "table \<Rightarrow> string \<Rightarrow> real \<Rightarrow> string \<Rightarrow> real" where
  "intervention_effect_of data intervention_var intervention_value outcome_var =
     (if intervention_var \<in> set (columns data)
      then (case corr (col intervention_var (rows data)) (col outcome_var (rows data)) of
              None \<Rightarrow> 0
            | Some correlation \<Rightarrow>
                (intervention_value - avg (col intervention_var (rows data))) * correlation)
      else 0)"

text \<open>
  A row is within one standard deviation of a declared value, for the deviation of the
  column over the given rows; \<open>intersection_filter\<close> is the intersection of the
  per-variable filters with the deviations taken over the table.
\<close>

definition within_one_std :: "row list \<Rightarrow> string \<Rightarrow> real \<Rightarrow> row \<Rightarrow> bool" where
  "within_one_std rs var val r =
     (case std (col var rs) of None \<Rightarrow> False | Some s \<Rightarrow> \<bar>r var - val\<bar> \<le> s)"

definition intersection_filter :: "table \<Rightarrow> (string \<times> real) list \<Rightarrow> row list" where
  "intersection_filter data scenario =
     filter (\<lambda>r. list_all (\<lambda>(var, val). var \<in> set (columns data) \<longrightarrow>
                                within_one_std (rows data) var val r) scenario)
            (rows data)"

text \<open>
  A row passes the filters of a scenario when, for every entry whose variable is a
  column, it is within one deviation of the declared value, the deviation being taken
  over the rows left by the entries before it.
\<close>

definition passes_filters :: "table \<Rightarrow> (string \<times> real) list \<Rightarrow> row \<Rightarrow> bool" where
  "passes_filters data scenario r =
     (\<forall>k < length scenario.
        fst (scenario ! k) \<in> set (columns data) \<longrightarrow>
        within_one_std (filter_loop data (take k scenario) (rows data))
          (fst (scenario ! k)) (snd (scenario ! k)) r)"

section \<open>Example inputs\<close>

text \<open>
  A DoWhy stand-in whose regression method raises and whose stratification method
  answers 2; an environment whose data file is missing and one whose data file holds the
  table \<open>table_XTY\<close>; the confounder triangle as a constructed model, without a table
  and with \<open>table_XTY\<close>; a table without the column \<open>X\<close>.
\<close>

definition example_dowhy :: dowhy_model where
  "example_dowhy =
     \<lparr>dw_identify_effect = Inr ''backdoor'',
      dw_estimate_effect = (\<lambda>estimand method.
         if method = ''backdoor.linear_regression'' then Inl ''singular matrix''
         else Inr (EstimateObject (Some 2)))\<rparr>"

definition example_env :: env where
  "example_env =
     \<lparr>read_csv = (\<lambda>path. Inl ''No such file''),
      json_load = (\<lambda>path. Inr triangle_config),
      DoWhyCausalModel = (\<lambda>args. Inr example_dowhy)\<rparr>"

definition triangle_graph :: digraph where
  "triangle_graph =
     \<lparr>g_nodes = [''X'', ''T'', ''Y''],
      g_edges = [(''X'', ''T''), (''X'', ''Y''), (''T'', ''Y'')]\<rparr>"

definition triangle_model :: causal_model where
  "triangle_model =
     \<lparr>cm_dag_config = triangle_config, cm_data = None, cm_dowhy_model = None,
      cm_graph = triangle_graph\<rparr>"

definition table_TY :: table where
  "table_TY = \<lparr>columns = [''T'', ''Y''],
               rows = [(\<lambda>c. if c = ''T'' then 0 else 1), (\<lambda>c. if c = ''T'' then 1 else 3)]\<rparr>"

definition table_XTY :: table where
  "table_XTY = \<lparr>columns = [''X'', ''T'', ''Y''],
               rows = [(\<lambda>c. if c = ''X'' then 0 else if c = ''T'' then 0 else 1),
                       (\<lambda>c. if c = ''X'' then 2 else if c = ''T'' then 1 else 3)]\<rparr>"

definition loaded_env :: env where
  "loaded_env = example_env\<lparr>read_csv := (\<lambda>path. Inr table_XTY)\<rparr>"

definition loaded_model :: causal_model where
  "loaded_model = triangle_model\<lparr>cm_data := Some table_XTY, cm_dowhy_model := Some example_dowhy\<rparr>"

text \<open>One query of each kind used below; \<open>unknown_query\<close> has an unrecognised tag.\<close>

definition unknown_query :: query where
  "unknown_query =
     \<lparr>query_type = Some ''not_a_real_type'',
      q_treatment_variable = None, q_outcome_variable = None, q_anomaly_threshold = None,
      q_potential_causes = None, q_target_variable = None, q_baseline_period = None,
      q_comparison_period = None, q_potential_drivers = None, q_intervention_variable = None,
      q_intervention_value = None, q_outcome_variables = None, q_factual_scenario = None,
      q_counterfactual_scenario = None\<rparr>"


definition anomaly_query :: query where
  "anomaly_query =
     unknown_query\<lparr>query_type := Some ''anomaly_attribution'',
       q_outcome_variable := Some ''Y'', q_anomaly_threshold := Some 10,
       q_potential_causes := Some [''X'', ''T'']\<rparr>"

definition intervention_query :: query where
  "intervention_query =
     unknown_query\<lparr>query_type := Some ''intervention'',
       q_intervention_variable := Some ''T'', q_intervention_value := Some 3,
       q_outcome_variables := Some [''Y'', ''Z'']\<rparr>"

text \<open>A table with its header and no rows.\<close>

definition empty_table :: table where
  "empty_table = \<lparr>columns = [''X'', ''T'', ''Y''], rows = []\<rparr>"

definition empty_model :: causal_model where
  "empty_model = triangle_model\<lparr>cm_data := Some empty_table, cm_dowhy_model := Some example_dowhy\<rparr>"

text \<open>A table on which the order of the counterfactual filters matters, and a query on it.\<close>

definition row_ABY :: "real \<Rightarrow> real \<Rightarrow> real \<Rightarrow> row" where
  "row_ABY a b y = (\<lambda>c. if c = ''A'' then a else if c = ''B'' then b else y)"

definition table_ABY :: table where
  "table_ABY =
     \<lparr>columns = [''A'', ''B'', ''Y''],
      rows = [row_ABY 0 0 10, row_ABY 4 3 20, row_ABY 8 9 30]\<rparr>"

definition counterfactual_query :: query where
  "counterfactual_query =
     unknown_query\<lparr>query_type := Some ''counterfactual'',
       q_factual_scenario := Some [(''A'', 0), (''B'', 0)],
       q_counterfactual_scenario := Some [],
       q_outcome_variable := Some ''Y''\<rparr>"

definition model_ABY :: causal_model where
  "model_ABY = triangle_model\<lparr>cm_data := Some table_ABY, cm_dowhy_model := Some example_dowhy\<rparr>"

text \<open>
  An anomaly query whose only potential cause is not a column, and a distribution shift
  query on a table with a single row.
\<close>

definition absent_cause_query :: query where
  "absent_cause_query =
     unknown_query\<lparr>query_type := Some ''anomaly_attribution'',
       q_outcome_variable := Some ''Y'', q_anomaly_threshold := Some 2,
       q_potential_causes := Some [''Z'']\<rparr>"

definition one_row_table :: table where
  "one_row_table = \<lparr>columns = [''T'', ''Y''], rows = [(\<lambda>c. if c = ''T'' then 1 else 3)]\<rparr>"

definition one_row_model :: causal_model where
  "one_row_model =
     triangle_model\<lparr>cm_data := Some one_row_table, cm_dowhy_model := Some example_dowhy\<rparr>"

definition shift_query :: query where
  "shift_query =
     unknown_query\<lparr>query_type := Some ''distribution_shift_attribution'',
       q_target_variable := Some ''Y'', q_baseline_period := Some ''2023'',
       q_comparison_period := Some ''2024'', q_potential_drivers := Some [''T'']\<rparr>"

section \<open>Graph construction and cycles\<close>

lemma g_edges_add_node [simp]: "g_edges (add_node n G) = g_edges G"
  by (simp add: add_node_def)

lemma set_g_nodes_add_node [simp]: "set (g_nodes (add_node n G)) = insert n (set (g_nodes G))"
  by (auto simp: add_node_def)

lemma set_g_edges_add_edge [simp]: "set (g_edges (add_edge e G)) = insert e (set (g_edges G))"
  by (auto simp: add_edge_def Let_def)

lemma set_g_nodes_add_edge [simp]:
  "set (g_nodes (add_edge e G)) = insert (fst e) (insert (snd e) (set (g_nodes G)))"
  by (auto simp: add_edge_def Let_def)

lemma g_edges_fold_add_node [simp]: "g_edges (fold add_node ns G) = g_edges G"
  by (induction ns arbitrary: G) auto

lemma set_g_edges_fold_add_edge:
  "set (g_edges (fold add_edge es G)) = set es \<union> set (g_edges G)"
  by (induction es arbitrary: G) auto

lemma set_g_nodes_fold_add_edge:
  "set (g_nodes (fold add_edge es G)) = fst ` set es \<union> snd ` set es \<union> set (g_nodes G)"
  by (induction es arbitrary: G) auto

text \<open>The nodes on a cycle are never emitted: each has a predecessor on a cycle.\<close>

definition on_cycle :: "(string \<times> string) list \<Rightarrow> string set" where
  "on_cycle es = {v. (v, v) \<in> (set es)\<^sup>+}"

lemma on_cycle_pred:
  assumes "v \<in> on_cycle es"
  shows "\<exists>u \<in> on_cycle es. (u, v) \<in> set es"
proof -
  from assms have vv: "(v, v) \<in> (set es)\<^sup>+" by (simp add: on_cycle_def)
  then obtain u where vu: "(v, u) \<in> (set es)\<^sup>*" and uv: "(u, v) \<in> set es"
    by (blast dest: tranclD2)
  from uv vu have "(u, u) \<in> (set es)\<^sup>+" by (rule rtrancl_into_trancl2)
  with uv show ?thesis by (auto simp: on_cycle_def)
qed

lemma peel_keeps_cycles:
  "on_cycle es \<subseteq> set ns \<Longrightarrow> on_cycle es \<subseteq> set (peel ns es)"
proof (induction ns es rule: peel.induct)
  case (1 ns es)
  have disj: "on_cycle es \<inter> set (zero_indegree ns es) = {}"
  proof -
    { fix v assume v: "v \<in> on_cycle es" and z: "v \<in> set (zero_indegree ns es)"
      from on_cycle_pred [OF v] obtain u where "u \<in> on_cycle es" "(u, v) \<in> set es" by blast
      with "1.prems" z have False by (auto simp: zero_indegree_def) }
    then show ?thesis by blast
  qed
  show ?case
  proof (cases "zero_indegree ns es = []")
    case True
    with "1.prems" show ?thesis by (simp add: peel.simps [of ns es])
  next
    case False
    from "1.prems" disj
    have "on_cycle es \<subseteq> set (filter (\<lambda>v. v \<notin> set (zero_indegree ns es)) ns)" by auto
    from "1.IH" [OF False this] False show ?thesis by (simp add: peel.simps [of ns es])
  qed
qed

lemma on_cycle_nodes: "on_cycle es \<subseteq> fst ` set es"
proof
  fix v assume "v \<in> on_cycle es"
  then have "(v, v) \<in> (set es)\<^sup>+" by (simp add: on_cycle_def)
  then obtain w where "(v, w) \<in> set es" by (auto dest: tranclD)
  then show "v \<in> fst ` set es" by force
qed

lemma cyclic_not_dag:
  assumes "(v, v) \<in> (set es)\<^sup>+" and "set (g_edges G) = set es" and "fst ` set es \<subseteq> set (g_nodes G)"
  shows "\<not> is_directed_acyclic_graph G"
proof -
  have "on_cycle (g_edges G) = on_cycle es"
    by (simp add: on_cycle_def assms(2))
  with on_cycle_nodes [of es] assms(3) have "on_cycle (g_edges G) \<subseteq> set (g_nodes G)"
    by blast
  then have "on_cycle (g_edges G) \<subseteq> set (peel (g_nodes G) (g_edges G))"
    by (rule peel_keeps_cycles)
  moreover from assms(1,2) have "v \<in> on_cycle (g_edges G)" by (simp add: on_cycle_def)
  ultimately show ?thesis by (auto simp: is_directed_acyclic_graph_def)
qed

text \<open>
  C1 (amended). For every configuration whose edge list, read as a directed graph over
  the variable names, contains a cycle, the generator's graph construction fails with the
  \<open>ValueError\<close> "The provided graph is not a DAG" and returns no graph.
\<close>

theorem build_graph_cyclic_fails:
  assumes "(v, v) \<in> (set (gen_edges cfg))\<^sup>+"
  shows "build_graph cfg = Inl (ValueError ''The provided graph is not a DAG'')"
proof -
  let ?G = "fold add_edge (gen_edges cfg) (fold add_node (map fst (gen_variables cfg)) DiGraph)"
  have e: "set (g_edges ?G) = set (gen_edges cfg)"
    by (simp add: set_g_edges_fold_add_edge DiGraph_def)
  have n: "fst ` set (gen_edges cfg) \<subseteq> set (g_nodes ?G)"
    by (auto simp: set_g_nodes_fold_add_edge)
  from cyclic_not_dag [OF assms e n] show ?thesis
    by (simp add: build_graph_def Let_def)
qed

theorem build_graph_cyclic_fails_witness:
  "(''A'', ''A'') \<in> (set (gen_edges cyclic_config))\<^sup>+ \<and>
   build_graph cyclic_config = Inl (ValueError ''The provided graph is not a DAG'')"
proof -
  have "(''A'', ''B'') \<in> set (gen_edges cyclic_config)"
       "(''B'', ''A'') \<in> set (gen_edges cyclic_config)"
    by (simp_all add: gen_edges_def get_or_def cyclic_config_def)
  then have h: "(''A'', ''A'') \<in> (set (gen_edges cyclic_config))\<^sup>+"
    by (rule trancl_into_trancl2 [OF _ r_into_trancl])
  from h build_graph_cyclic_fails [OF h] show ?thesis by simp
qed

text \<open>
  C1 as stated fails: on the cyclic configuration \<open>A \<rightarrow> B \<rightarrow> A\<close> the construction of
  the causal model context returns the graph, and the generator's error is the fixed
  text, which names no edge.
\<close>

theorem build_networkx_graph_cyclic_counterexample:
  "build_networkx_graph cyclic_config =
     Inr \<lparr>g_nodes = [''A'', ''B''], g_edges = [(''A'', ''B''), (''B'', ''A'')]\<rparr>
   \<and> build_graph cyclic_config = Inl (ValueError ''The provided graph is not a DAG'')"
  by (simp add: build_networkx_graph_def build_graph_def cyclic_config_def DiGraph_def
      add_node_def add_edge_def gen_edges_def gen_variables_def get_or_def
      is_directed_acyclic_graph_def peel.simps zero_indegree_def Let_def)

text \<open>On the acyclic confounder triangle the generator's construction returns the graph.\<close>

lemma build_graph_triangle: "build_graph triangle_config = Inr triangle_graph"
proof -
  let ?es = "[(''X'', ''T''), (''X'', ''Y''), (''T'', ''Y'')]"
  have g: "fold add_edge (gen_edges triangle_config)
             (fold add_node (map fst (gen_variables triangle_config)) DiGraph) = triangle_graph"
    by (simp add: triangle_config_def triangle_graph_def DiGraph_def add_node_def add_edge_def
          gen_edges_def gen_variables_def get_or_def Let_def)
  have p0: "peel [] ?es = []"
    by (subst peel.simps) (simp add: zero_indegree_def)
  have p1: "peel [''Y''] ?es = []"
    by (subst peel.simps) (simp add: zero_indegree_def p0)
  have p2: "peel [''T'', ''Y''] ?es = []"
    by (subst peel.simps) (simp add: zero_indegree_def p1)
  have p3: "peel [''X'', ''T'', ''Y''] ?es = []"
    by (subst peel.simps) (simp add: zero_indegree_def p2)
  have "is_directed_acyclic_graph triangle_graph"
    by (simp add: is_directed_acyclic_graph_def triangle_graph_def p3)
  then show ?thesis
    by (simp add: build_graph_def Let_def g)
qed

section \<open>The generated continuous column\<close>

lemma code_coefficient:
  assumes "treatment_variable cfg \<noteq> None" "outcome_variable cfg \<noteq> None"
  shows "(if is_treatment_outcome_relationship cfg parent child then te
          else if is_confounder_relationship cfg parent child then cs else 0.5)
         = coefficient cfg te cs parent child"
  using assms
  by (auto simp: is_treatment_outcome_relationship_def is_confounder_relationship_def
       coefficient_def get_or_def Let_def)

lemma add_parents_sum:
  assumes "treatment_variable cfg \<noteq> None" "outcome_variable cfg \<noteq> None"
    and "\<forall>p \<in> set ps. \<exists>c. data p = Some c \<and> length c = length vals"
  shows "\<exists>out. add_parents cfg var data te cs ps vals = Inr out \<and> length out = length vals \<and>
           (\<forall>i < length vals. out ! i =
               vals ! i + (\<Sum>p\<leftarrow>ps. coefficient cfg te cs p var * the (data p) ! i))"
  using assms(3)
proof (induction ps arbitrary: vals)
  case Nil
  then show ?case by simp
next
  case (Cons p ps)
  from Cons.prems obtain c where c: "data p = Some c" "length c = length vals" by auto
  let ?k = "coefficient cfg te cs p var"
  let ?v = "map2 (+) vals (map (\<lambda>x. ?k * x) c)"
  have len: "length ?v = length vals" using c by simp
  from Cons.prems len have "\<forall>q \<in> set ps. \<exists>c. data q = Some c \<and> length c = length ?v" by simp
  from Cons.IH [OF this] obtain out where
    out: "add_parents cfg var data te cs ps ?v = Inr out" "length out = length ?v"
      "\<forall>i < length ?v. out ! i = ?v ! i + (\<Sum>q\<leftarrow>ps. coefficient cfg te cs q var * the (data q) ! i)"
    by blast
  have step: "add_parents cfg var data te cs (p # ps) vals = Inr out"
    using c out(1) code_coefficient [OF assms(1,2), of p var te cs]
    by (simp add: iadd_def)
  have "\<forall>i < length vals. out ! i =
          vals ! i + (\<Sum>q\<leftarrow>p # ps. coefficient cfg te cs q var * the (data q) ! i)"
    using out(3) c len by (simp add: algebra_simps)
  with step out(2) len show ?case by simp
qed

text \<open>
  C2. For a continuous variable with at least one parent, under a configuration that
  declares its treatment and outcome variables, the generated column is, row by row, the
  normal noise of standard deviation \<open>noise_std\<close> plus the sum over the parents of
  \<open>coefficient * parent value\<close>, the coefficient being the treatment effect on the
  declared treatment-to-outcome edge, else the confounder strength from a declared
  confounder into the treatment or outcome variable, else 0.5.
\<close>

theorem continuous_column:
  assumes "treatment_variable cfg \<noteq> None" "outcome_variable cfg \<noteq> None"
    and "parents \<noteq> []" and "0 \<le> noise_std"
    and "\<forall>p \<in> set parents. \<exists>c. data p = Some c \<and> length c = n"
  shows "\<exists>col. generate_continuous_variable cfg z n var parents data te noise_std cs = Inr col \<and>
           length col = n \<and>
           (\<forall>i < n. col ! i =
               noise_std * z i + (\<Sum>p\<leftarrow>parents. coefficient cfg te cs p var * the (data p) ! i))"
proof -
  let ?noise = "map (\<lambda>i. 0 + noise_std * z i) [0..<n]"
  have "\<forall>p \<in> set parents. \<exists>c. data p = Some c \<and> length c = length ?noise"
    using assms(5) by simp
  from add_parents_sum [OF assms(1,2) this, of var te cs]
  obtain out where out: "add_parents cfg var data te cs parents ?noise = Inr out"
     "length out = length ?noise"
     "\<forall>i < length ?noise. out ! i =
               ?noise ! i + (\<Sum>p\<leftarrow>parents. coefficient cfg te cs p var * the (data p) ! i)"
    by blast
  have "generate_continuous_variable cfg z n var parents data te noise_std cs = Inr out"
    using assms(3,4) out(1) by (simp add: generate_continuous_variable_def np_random_normal_def)
  with out(2,3) show ?thesis by simp
qed

theorem continuous_column_witness:
  "treatment_variable triangle_config \<noteq> None \<and> outcome_variable triangle_config \<noteq> None \<and>
   [''X'', ''T''] \<noteq> [] \<and> (0::real) \<le> 1 / 2 \<and>
   triangle_data ''X'' = Some [1, 2] \<and> triangle_data ''T'' = Some [0, 1] \<and>
   (\<exists>col. generate_continuous_variable triangle_config real 2 ''Y'' [''X'', ''T'']
            triangle_data (3 / 2) (1 / 2) 1 = Inr col \<and>
          length col = 2 \<and> col ! 0 = 1 \<and> col ! 1 = 4)"
proof -
  have t: "treatment_variable triangle_config \<noteq> None"
    and y: "outcome_variable triangle_config \<noteq> None"
    by (simp_all add: triangle_config_def)
  have d: "triangle_data ''X'' = Some [1, 2]" "triangle_data ''T'' = Some [0, 1]"
    by (simp_all add: triangle_data_def)
  then have cols: "\<forall>p \<in> set [''X'', ''T'']. \<exists>c. triangle_data p = Some c \<and> length c = 2"
    by simp
  have kx: "coefficient triangle_config (3 / 2) 1 ''X'' ''Y'' = 1"
    and kt: "coefficient triangle_config (3 / 2) 1 ''T'' ''Y'' = 3 / 2"
    by (simp_all add: coefficient_def triangle_config_def get_or_def)
  have "\<exists>col. generate_continuous_variable triangle_config real 2 ''Y'' [''X'', ''T'']
            triangle_data (3 / 2) (1 / 2) 1 = Inr col \<and> length col = 2 \<and>
          (\<forall>i < 2. col ! i = 1 / 2 * real i +
             (\<Sum>p\<leftarrow>[''X'', ''T'']. coefficient triangle_config (3 / 2) 1 p ''Y'' *
                the (triangle_data p) ! i))"
    by (rule continuous_column [OF t y _ _ cols]) simp_all
  then obtain col where col:
    "generate_continuous_variable triangle_config real 2 ''Y'' [''X'', ''T'']
       triangle_data (3 / 2) (1 / 2) 1 = Inr col" "length col = 2"
    "\<forall>i < 2. col ! i = 1 / 2 * real i +
        (\<Sum>p\<leftarrow>[''X'', ''T'']. coefficient triangle_config (3 / 2) 1 p ''Y'' *
           the (triangle_data p) ! i)"
    by blast
  from col(3) have "col ! 0 = 1" by (simp add: kx kt d)
  moreover from col(3) have "col ! 1 = 4" by (simp add: kx kt d)
  ultimately show ?thesis using t y d col(1,2) by auto
qed

section \<open>Attaching a table\<close>

lemma create_dowhy_model_not_missing:
  "create_dowhy_model ev cm \<noteq> Inl (MissingVariables ms)"
  by (auto simp: create_dowhy_model_def Let_def split: option.splits sum.splits)

lemma validate_data_result:
  assumes "cm_data cm = Some data" "variables (cm_dag_config cm) = Some vars"
  shows "validate_data cm =
           (if fst ` set vars \<subseteq> set (columns data) then Inr ()
            else Inl (MissingVariables
                   (filter (\<lambda>v. v \<notin> set (columns data)) (remdups (map fst vars)))))"
  using assms by (auto simp: validate_data_def Let_def filter_empty_conv)

lemma attach_data_missing:
  assumes "variables (cm_dag_config cm) = Some vars" "\<not> fst ` set vars \<subseteq> set (columns data)"
  shows "attach_data ev cm data =
           Inl (MissingVariables (filter (\<lambda>v. v \<notin> set (columns data)) (remdups (map fst vars))))"
  using assms validate_data_result [of "cm\<lparr>cm_data := Some data\<rparr>" data vars]
  by (simp add: attach_data_def Let_def)

text \<open>
  C7. For a model whose configuration declares variables and any table passed to
  \<open>attach_data\<close>: if some declared variable has no column, the attachment fails with
  the missing-variables error, which names exactly the declared variables without a
  column; if every declared variable has a column, it raises no such error.
\<close>

theorem attach_data_validates:
  assumes "variables (cm_dag_config cm) = Some vars"
  shows "(\<not> fst ` set vars \<subseteq> set (columns data) \<longrightarrow>
            (\<exists>ms. attach_data ev cm data = Inl (MissingVariables ms) \<and>
                  set ms = fst ` set vars - set (columns data)))
       \<and> (fst ` set vars \<subseteq> set (columns data) \<longrightarrow>
            (\<forall>ms. attach_data ev cm data \<noteq> Inl (MissingVariables ms)))"
proof (intro conjI impI allI)
  assume m: "\<not> fst ` set vars \<subseteq> set (columns data)"
  from attach_data_missing [OF assms m]
  show "\<exists>ms. attach_data ev cm data = Inl (MissingVariables ms) \<and>
              set ms = fst ` set vars - set (columns data)"
    by auto
next
  fix ms assume "fst ` set vars \<subseteq> set (columns data)"
  with assms validate_data_result [of "cm\<lparr>cm_data := Some data\<rparr>" data vars]
  have "attach_data ev cm data = create_dowhy_model ev (cm\<lparr>cm_data := Some data\<rparr>)"
    by (simp add: attach_data_def Let_def)
  then show "attach_data ev cm data \<noteq> Inl (MissingVariables ms)"
    by (simp add: create_dowhy_model_not_missing)
qed

theorem attach_data_validates_witness:
  "variables (cm_dag_config triangle_model) = variables triangle_config \<and>
   \<not> fst ` set (the (variables triangle_config)) \<subseteq> set (columns table_TY) \<and>
   (\<exists>ms. attach_data example_env triangle_model table_TY = Inl (MissingVariables ms) \<and>
         set ms = {''X''}) \<and>
   fst ` set (the (variables triangle_config)) \<subseteq> set (columns table_XTY) \<and>
   (\<forall>ms. attach_data example_env triangle_model table_XTY \<noteq> Inl (MissingVariables ms))"
proof -
  let ?vars = "the (variables triangle_config)"
  have v: "variables (cm_dag_config triangle_model) = Some ?vars"
    by (simp add: triangle_model_def triangle_config_def)
  have a: "\<not> fst ` set ?vars \<subseteq> set (columns table_TY)"
    by (simp add: triangle_config_def table_TY_def)
  have b: "fst ` set ?vars \<subseteq> set (columns table_XTY)"
    by (simp add: triangle_config_def table_XTY_def)
  have s: "fst ` set ?vars - set (columns table_TY) = {''X''}"
    by (auto simp: triangle_config_def table_TY_def)
  from attach_data_validates [OF v, of table_TY example_env] a s
  have 1: "\<exists>ms. attach_data example_env triangle_model table_TY = Inl (MissingVariables ms) \<and>
         set ms = {''X''}" by simp
  from attach_data_validates [OF v, of table_XTY example_env] b
  have 2: "\<forall>ms. attach_data example_env triangle_model table_XTY \<noteq> Inl (MissingVariables ms)"
    by blast
  from v a b 1 2 show ?thesis by (simp add: triangle_model_def)
qed

section \<open>Construction, dispatch and the anomaly threshold\<close>

lemma CausalModel_not_missing: "CausalModel ev src data \<noteq> Inl (MissingVariables ms)"
  by (auto simp: CausalModel_def load_dag_config_def external_def build_networkx_graph_def
        Let_def create_dowhy_model_not_missing split: sum.splits config_source.splits option.splits)

text \<open>
  C8. Constructing the model context with a table given to the constructor never raises
  the missing-variables error, whatever the table. When the configuration loads, declares
  its variables, edges, treatment and outcome, and DoWhy accepts the inputs, the
  construction returns the model with the table attached, with no condition on the
  table's columns; on the same configuration and table, \<open>attach_data\<close> raises the
  missing-variables error as soon as a declared variable has no column.
\<close>

theorem constructor_skips_validation:
  "(\<forall>ms. CausalModel ev src data \<noteq> Inl (MissingVariables ms)) \<and>
   (load_dag_config ev src = Inr cfg \<and> variables cfg = Some vars \<and> edges cfg = Some es \<and>
    \<not> falsy (treatment_variable cfg) \<and> \<not> falsy (outcome_variable cfg) \<and>
    new_dowhy_model ev cfg (fold add_edge es (fold add_node (map fst vars) DiGraph)) tbl
      (the (treatment_variable cfg)) (the (outcome_variable cfg)) = Inr m
    \<longrightarrow>
      CausalModel ev src (Some tbl) =
        Inr \<lparr>cm_dag_config = cfg, cm_data = Some tbl, cm_dowhy_model = Some m,
             cm_graph = fold add_edge es (fold add_node (map fst vars) DiGraph)\<rparr> \<and>
      (\<not> fst ` set vars \<subseteq> set (columns tbl) \<longrightarrow>
         (\<exists>ms. attach_data ev
                 \<lparr>cm_dag_config = cfg, cm_data = None, cm_dowhy_model = None,
                  cm_graph = fold add_edge es (fold add_node (map fst vars) DiGraph)\<rparr> tbl
               = Inl (MissingVariables ms))))"
proof (intro conjI impI allI)
  fix ms show "CausalModel ev src data \<noteq> Inl (MissingVariables ms)"
    by (rule CausalModel_not_missing)
next
  assume h: "load_dag_config ev src = Inr cfg \<and> variables cfg = Some vars \<and> edges cfg = Some es \<and>
    \<not> falsy (treatment_variable cfg) \<and> \<not> falsy (outcome_variable cfg) \<and>
    new_dowhy_model ev cfg (fold add_edge es (fold add_node (map fst vars) DiGraph)) tbl
      (the (treatment_variable cfg)) (the (outcome_variable cfg)) = Inr m"
  then show "CausalModel ev src (Some tbl) =
        Inr \<lparr>cm_dag_config = cfg, cm_data = Some tbl, cm_dowhy_model = Some m,
             cm_graph = fold add_edge es (fold add_node (map fst vars) DiGraph)\<rparr>"
    by (simp add: CausalModel_def build_networkx_graph_def create_dowhy_model_def Let_def)
next
  let ?cm = "\<lparr>cm_dag_config = cfg, cm_data = None, cm_dowhy_model = None,
                  cm_graph = fold add_edge es (fold add_node (map fst vars) DiGraph)\<rparr>"
  assume h: "load_dag_config ev src = Inr cfg \<and> variables cfg = Some vars \<and> edges cfg = Some es \<and>
    \<not> falsy (treatment_variable cfg) \<and> \<not> falsy (outcome_variable cfg) \<and>
    new_dowhy_model ev cfg (fold add_edge es (fold add_node (map fst vars) DiGraph)) tbl
      (the (treatment_variable cfg)) (the (outcome_variable cfg)) = Inr m"
    and m: "\<not> fst ` set vars \<subseteq> set (columns tbl)"
  from h have "variables (cm_dag_config ?cm) = Some vars" by simp
  from attach_data_missing [OF this m]
  show "\<exists>ms. attach_data ev ?cm tbl = Inl (MissingVariables ms)" by blast
qed

theorem constructor_skips_validation_witness:
  "load_dag_config example_env (ConfigDict triangle_config) = Inr triangle_config \<and>
   \<not> falsy (treatment_variable triangle_config) \<and> \<not> falsy (outcome_variable triangle_config) \<and>
   new_dowhy_model example_env triangle_config triangle_graph table_TY ''T'' ''Y''
     = Inr example_dowhy \<and>
   \<not> fst ` set (the (variables triangle_config)) \<subseteq> set (columns table_TY) \<and>
   CausalModel example_env (ConfigDict triangle_config) (Some table_TY) =
     Inr (triangle_model\<lparr>cm_data := Some table_TY, cm_dowhy_model := Some example_dowhy\<rparr>) \<and>
   (\<exists>ms. attach_data example_env triangle_model table_TY = Inl (MissingVariables ms))"
proof -
  let ?vars = "the (variables triangle_config)" and ?es = "the (edges triangle_config)"
  have g: "fold add_edge ?es (fold add_node (map fst ?vars) DiGraph) = triangle_graph"
    by (simp add: triangle_config_def triangle_graph_def DiGraph_def add_node_def add_edge_def Let_def)
  have l: "load_dag_config example_env (ConfigDict triangle_config) = Inr triangle_config"
    by (simp add: load_dag_config_def)
  have v: "variables triangle_config = Some ?vars" "edges triangle_config = Some ?es"
    by (simp_all add: triangle_config_def)
  have f: "\<not> falsy (treatment_variable triangle_config)" "\<not> falsy (outcome_variable triangle_config)"
    by (simp_all add: falsy_def triangle_config_def)
  have ty: "the (treatment_variable triangle_config) = ''T''" "the (outcome_variable triangle_config) = ''Y''"
    by (simp_all add: triangle_config_def)
  have d: "new_dowhy_model example_env triangle_config triangle_graph table_TY ''T'' ''Y''
     = Inr example_dowhy"
    by (simp add: new_dowhy_model_def example_env_def)
  have mis: "\<not> fst ` set ?vars \<subseteq> set (columns table_TY)"
    by (simp add: triangle_config_def table_TY_def)
  have tm: "\<lparr>cm_dag_config = triangle_config, cm_data = None, cm_dowhy_model = None,
             cm_graph = triangle_graph\<rparr> = triangle_model"
    by (simp add: triangle_model_def)
  have hyp: "load_dag_config example_env (ConfigDict triangle_config) = Inr triangle_config \<and>
      variables triangle_config = Some ?vars \<and> edges triangle_config = Some ?es \<and>
      \<not> falsy (treatment_variable triangle_config) \<and>
      \<not> falsy (outcome_variable triangle_config) \<and>
      new_dowhy_model example_env triangle_config
        (fold add_edge ?es (fold add_node (map fst ?vars) DiGraph)) table_TY
        (the (treatment_variable triangle_config)) (the (outcome_variable triangle_config))
        = Inr example_dowhy"
    using l v f d by (simp only: g ty simp_thms)
  note inst = constructor_skips_validation [of example_env "ConfigDict triangle_config" None
      triangle_config ?vars ?es table_TY example_dowhy]
  from inst hyp have c: "CausalModel example_env (ConfigDict triangle_config) (Some table_TY) =
        Inr \<lparr>cm_dag_config = triangle_config, cm_data = Some table_TY,
             cm_dowhy_model = Some example_dowhy,
             cm_graph = fold add_edge ?es (fold add_node (map fst ?vars) DiGraph)\<rparr>"
    by blast
  from inst hyp mis have a: "\<exists>ms. attach_data example_env
                 \<lparr>cm_dag_config = triangle_config, cm_data = None, cm_dowhy_model = None,
                  cm_graph = fold add_edge ?es (fold add_node (map fst ?vars) DiGraph)\<rparr> table_TY
               = Inl (MissingVariables ms)"
    by blast
  have c': "CausalModel example_env (ConfigDict triangle_config) (Some table_TY) =
     Inr (triangle_model\<lparr>cm_data := Some table_TY, cm_dowhy_model := Some example_dowhy\<rparr>)"
    using c by (simp only: g) (simp add: triangle_model_def)
  have a': "\<exists>ms. attach_data example_env triangle_model table_TY = Inl (MissingVariables ms)"
    using a by (simp only: g tm)
  from l f d mis c' a' show ?thesis by blast
qed

lemma contains_append: "contains sub (pre @ sub)"
  unfolding contains_def list_ex_iff
  by (rule bexI [of _ "length pre"]) auto

lemma success_fail_soft_Inl: "\<not> success (fail_soft tag (Inl e))"
  by (simp add: fail_soft_def)

text \<open>
  C9. For every query whose tag is none of the five recognised kinds, the dispatcher
  returns a result with \<open>success = False\<close> and raises nothing; on a loaded data file
  and model context, which is what the dispatcher routes on, the result carries the tag
  and the error \<open>Unknown query type: <tag>\<close>, which contains the tag.
\<close>

theorem dispatch_unknown_query_type:
  assumes "query_type q \<noteq> Some ''effect_estimation''"
    and "query_type q \<noteq> Some ''anomaly_attribution''"
    and "query_type q \<noteq> Some ''distribution_shift_attribution''"
    and "query_type q \<noteq> Some ''intervention''"
    and "query_type q \<noteq> Some ''counterfactual''"
  shows "\<not> success (dispatch_query ev q dag_path data_path) \<and>
         (read_csv ev data_path = Inr tbl \<and>
          CausalModel ev (ConfigPath dag_path) (Some tbl) = Inr cm \<longrightarrow>
            dispatch_query ev q dag_path data_path =
              Failure (query_type q) (''Unknown query type: '' @ str_of_tag (query_type q)) \<and>
            contains (str_of_tag (query_type q))
              (the (error_of (dispatch_query ev q dag_path data_path))))"
proof -
  have r: "route q m = Failure (query_type q) (''Unknown query type: '' @ str_of_tag (query_type q))"
    for m using assms by (simp add: route_def)
  have 1: "\<not> success (dispatch_query ev q dag_path data_path)"
    by (simp add: dispatch_query_def r split: sum.splits)
  have 2: "dispatch_query ev q dag_path data_path =
              Failure (query_type q) (''Unknown query type: '' @ str_of_tag (query_type q))"
    if "read_csv ev data_path = Inr tbl" "CausalModel ev (ConfigPath dag_path) (Some tbl) = Inr cm"
    using that by (simp add: dispatch_query_def external_def r)
  have 3: "contains (str_of_tag (query_type q))
             (the (error_of (Failure (query_type q)
                (''Unknown query type: '' @ str_of_tag (query_type q)))))"
    by (simp only: error_of.simps option.sel contains_append)
  show ?thesis
  proof (intro conjI impI)
    show "\<not> success (dispatch_query ev q dag_path data_path)" by (rule 1)
  next
    assume h: "read_csv ev data_path = Inr tbl \<and>
          CausalModel ev (ConfigPath dag_path) (Some tbl) = Inr cm"
    then show "dispatch_query ev q dag_path data_path =
              Failure (query_type q) (''Unknown query type: '' @ str_of_tag (query_type q))"
      by (intro 2) simp_all
    then show "contains (str_of_tag (query_type q))
              (the (error_of (dispatch_query ev q dag_path data_path)))"
      using 3 by (simp only:)
  qed
qed

theorem dispatch_unknown_query_type_witness:
  "query_type unknown_query = Some ''not_a_real_type'' \<and>
   read_csv loaded_env ''data.csv'' = Inr table_XTY \<and>
   CausalModel loaded_env (ConfigPath ''dag.json'') (Some table_XTY) = Inr loaded_model \<and>
   \<not> success (dispatch_query loaded_env unknown_query ''dag.json'' ''data.csv'') \<and>
   dispatch_query loaded_env unknown_query ''dag.json'' ''data.csv'' =
     Failure (Some ''not_a_real_type'') ''Unknown query type: not_a_real_type''"
proof -
  have t: "query_type unknown_query = Some ''not_a_real_type''"
    by (simp add: unknown_query_def)
  have rd: "read_csv loaded_env ''data.csv'' = Inr table_XTY"
    by (simp add: loaded_env_def)
  have cm: "CausalModel loaded_env (ConfigPath ''dag.json'') (Some table_XTY) = Inr loaded_model"
    by (simp add: CausalModel_def load_dag_config_def external_def loaded_env_def example_env_def
        build_networkx_graph_def triangle_config_def DiGraph_def add_node_def add_edge_def Let_def
        create_dowhy_model_def falsy_def new_dowhy_model_def loaded_model_def triangle_model_def
        triangle_graph_def)
  from dispatch_unknown_query_type [of unknown_query loaded_env "''dag.json''" "''data.csv''"
      table_XTY loaded_model] t rd cm
  show ?thesis by (simp add: str_of_tag_def)
qed

text \<open>
  Loading errors come before the routing: when the data file or the model context does
  not load, the result is the failure that carries the loading error's message, whatever
  the tag.
\<close>

lemma dispatch_load_failure:
  "(read_csv ev data_path = Inl msg \<longrightarrow>
      dispatch_query ev q dag_path data_path =
        Failure (Some (get_or (query_type q) ''unknown'')) msg)
   \<and> (read_csv ev data_path = Inr tbl \<and>
        CausalModel ev (ConfigPath dag_path) (Some tbl) = Inl e \<longrightarrow>
      dispatch_query ev q dag_path data_path =
        Failure (Some (get_or (query_type q) ''unknown'')) (str_of_error e))"
  by (simp add: dispatch_query_def external_def)

lemma getitem_Inr: "c \<in> set (columns data) \<Longrightarrow> getitem data c = Inr (col c (rows data))"
  by (simp add: getitem_def)

text \<open>
  C10. For an anomaly attribution query with its three required fields, on a table that
  has the outcome column, a threshold strictly greater than every value of the outcome
  column gives a successful result with \<open>anomalies_found = 0\<close> and an empty
  attribution map.
\<close>

theorem anomaly_threshold_above_maximum:
  assumes "q_outcome_variable q = Some outcome_var"
    and "q_anomaly_threshold q = Some threshold"
    and "q_potential_causes q = Some causes"
    and "cm_data cm = Some data"
    and "outcome_var \<in> set (columns data)"
    and "\<forall>v \<in> set (col outcome_var (rows data)). v < threshold"
  shows "\<exists>res. handle_anomaly_attribution q cm = Anomaly res \<and> success (Anomaly res) \<and>
           ar_anomalies_found res = 0 \<and> ar_attribution_scores res = []"
proof -
  from assms(6) have "True \<notin> set (map (\<lambda>v. v > threshold) (col outcome_var (rows data)))"
    by auto
  with assms(1-5) show ?thesis
    by (simp add: handle_anomaly_attribution_def fail_soft_def anomaly_attribution_body_def
        required_def the_data_def getitem_Inr Let_def)
qed

theorem anomaly_threshold_above_maximum_witness:
  "q_outcome_variable anomaly_query = Some ''Y'' \<and>
   q_anomaly_threshold anomaly_query = Some 10 \<and>
   q_potential_causes anomaly_query = Some [''X'', ''T''] \<and>
   cm_data loaded_model = Some table_XTY \<and>
   ''Y'' \<in> set (columns table_XTY) \<and>
   col ''Y'' (rows table_XTY) = [1, 3] \<and>
   (\<exists>res. handle_anomaly_attribution anomaly_query loaded_model = Anomaly res \<and>
      success (Anomaly res) \<and> ar_anomalies_found res = 0 \<and> ar_attribution_scores res = [])"
proof -
  have q: "q_outcome_variable anomaly_query = Some ''Y''"
      "q_anomaly_threshold anomaly_query = Some 10"
      "q_potential_causes anomaly_query = Some [''X'', ''T'']"
    by (simp_all add: anomaly_query_def)
  have d: "cm_data loaded_model = Some table_XTY" by (simp add: loaded_model_def)
  have c: "''Y'' \<in> set (columns table_XTY)" by (simp add: table_XTY_def)
  have y: "col ''Y'' (rows table_XTY) = [1, 3]" by (simp add: col_def table_XTY_def)
  then have b: "\<forall>v \<in> set (col ''Y'' (rows table_XTY)). v < 10" by simp
  from anomaly_threshold_above_maximum [OF q d c b] q d c y show ?thesis by blast
qed

section \<open>Effect estimation reports\<close>




section \<open>Intervention effects\<close>

lemma map_of_dict_set: "map_of (dict_set k v d) = (map_of d)(k \<mapsto> v)"
  by (induction d) (auto simp: fun_eq_iff)

lemma outcomes_loop_maps:
  "map_of (fst (outcomes_loop data iv x ovs (d1, d2))) k =
     (if k \<in> set ovs \<and> k \<in> set (columns data) then Some (mean (col k (rows data)))
      else map_of d1 k)
   \<and> map_of (snd (outcomes_loop data iv x ovs (d1, d2))) k =
     (if k \<in> set ovs \<and> k \<in> set (columns data)
      then Some (intervened_outcome data iv x k (mean (col k (rows data))))
      else map_of d2 k)"
  by (induction ovs arbitrary: d1 d2) (auto simp: map_of_dict_set Let_def)

lemma effects_loop_maps:
  assumes "\<forall>k. map_of orig k \<noteq> None \<longrightarrow> map_of intv k \<noteq> None"
  shows "\<exists>out. effects_loop orig intv ovs eff = Inr out \<and>
           (\<forall>k. map_of out k =
              (if k \<in> set ovs \<and> map_of orig k \<noteq> None
               then Some \<lparr>ie_original_value = the (map_of orig k),
                          ie_intervened_value = the (map_of intv k),
                          ie_effect = fsub (the (map_of intv k)) (the (map_of orig k))\<rparr>
               else map_of eff k))"
proof (induction ovs arbitrary: eff)
  case Nil
  then show ?case by simp
next
  case (Cons ov ovs)
  show ?case
  proof (cases "map_of orig ov")
    case None
    with Cons.IH [of eff] show ?thesis by auto
  next
    case (Some a)
    with assms obtain b where b: "map_of intv ov = Some b" by fastforce
    let ?e = "dict_set ov \<lparr>ie_original_value = a, ie_intervened_value = b,
                           ie_effect = fsub b a\<rparr> eff"
    from Cons.IH [of ?e] obtain out where
      out: "effects_loop orig intv ovs ?e = Inr out"
        "\<forall>k. map_of out k =
              (if k \<in> set ovs \<and> map_of orig k \<noteq> None
               then Some \<lparr>ie_original_value = the (map_of orig k),
                          ie_intervened_value = the (map_of intv k),
                          ie_effect = fsub (the (map_of intv k)) (the (map_of orig k))\<rparr>
               else map_of ?e k)"
      by blast
    from Some b out(1) have "effects_loop orig intv (ov # ovs) eff = Inr out" by simp
    moreover from out(2) Some b have "\<forall>k. map_of out k =
              (if k \<in> set (ov # ovs) \<and> map_of orig k \<noteq> None
               then Some \<lparr>ie_original_value = the (map_of orig k),
                          ie_intervened_value = the (map_of intv k),
                          ie_effect = fsub (the (map_of intv k)) (the (map_of orig k))\<rparr>
               else map_of eff k)"
      by (auto simp: map_of_dict_set)
    ultimately show ?thesis by blast
  qed
qed

lemma intervention_entry:
  assumes "q_intervention_variable q = Some iv"
    and "q_intervention_value q = Some x"
    and "q_outcome_variables q = Some ovs"
    and "cm_data cm = Some data"
  shows "\<exists>res. handle_intervention q cm = Intervention res \<and>
           (\<forall>k. map_of (ir_intervention_effects res) k =
              (if k \<in> set ovs \<and> k \<in> set (columns data)
               then Some \<lparr>ie_original_value = mean (col k (rows data)),
                          ie_intervened_value =
                            intervened_outcome data iv x k (mean (col k (rows data))),
                          ie_effect = fsub (intervened_outcome data iv x k (mean (col k (rows data))))
                                        (mean (col k (rows data)))\<rparr>
               else None))"
proof -
  let ?d = "outcomes_loop data iv x ovs ([], [])"
  have o: "map_of (fst ?d) k =
     (if k \<in> set ovs \<and> k \<in> set (columns data) then Some (mean (col k (rows data))) else None)"
    and i: "map_of (snd ?d) k =
     (if k \<in> set ovs \<and> k \<in> set (columns data)
      then Some (intervened_outcome data iv x k (mean (col k (rows data)))) else None)" for k
    using outcomes_loop_maps [of data iv x ovs "[]" "[]" k] by simp_all
  have "\<forall>k. map_of (fst ?d) k \<noteq> None \<longrightarrow> map_of (snd ?d) k \<noteq> None"
    by (simp add: o i)
  from effects_loop_maps [OF this, of ovs "[]"] obtain out where
    out: "effects_loop (fst ?d) (snd ?d) ovs [] = Inr out"
      "\<forall>k. map_of out k =
              (if k \<in> set ovs \<and> map_of (fst ?d) k \<noteq> None
               then Some \<lparr>ie_original_value = the (map_of (fst ?d) k),
                          ie_intervened_value = the (map_of (snd ?d) k),
                          ie_effect = fsub (the (map_of (snd ?d) k)) (the (map_of (fst ?d) k))\<rparr>
               else map_of [] k)"
    by blast
  from assms out(1) have "handle_intervention q cm = Intervention
       \<lparr>ir_intervention_variable = iv, ir_intervention_value = x,
        ir_intervention_effects = out,
        ir_summary = [Txt ''Intervening on '', Txt iv, Txt '' to '', Num (Some x),
                      Txt '' affects '', Cnt (length out), Txt '' outcomes'']\<rparr>"
    by (simp add: handle_intervention_def fail_soft_def intervention_body_def required_def
          the_data_def Let_def)
  moreover from out(2) have "\<forall>k. map_of out k =
              (if k \<in> set ovs \<and> k \<in> set (columns data)
               then Some \<lparr>ie_original_value = mean (col k (rows data)),
                          ie_intervened_value =
                            intervened_outcome data iv x k (mean (col k (rows data))),
                          ie_effect = fsub (intervened_outcome data iv x k (mean (col k (rows data))))
                                        (mean (col k (rows data)))\<rparr>
               else None)"
    by (simp add: o i)
  ultimately show ?thesis by simp
qed

lemma corr_Some_nonempty: "corr xs ys = Some r \<Longrightarrow> xs \<noteq> []"
  by (auto simp: corr_def)

lemma intervened_outcome_nonempty:
  assumes "rows data \<noteq> []"
  shows "intervened_outcome data iv x ov (mean (col ov (rows data))) =
           Some (avg (col ov (rows data)) + intervention_effect_of data iv x ov)"
  using assms
  by (auto simp: intervened_outcome_def intervention_effect_of_def mean_def col_def isnan_def
        fadd_def fsub_def fmul_def Let_def split: option.splits)

text \<open>
  The intervention handler on a table with at least one row. For an intervention query
  with its three required fields and each requested outcome variable that is a column:
  the query succeeds, the original value is the mean of the outcome column, the effect is
  \<open>(intervention_value - mean(intervention_variable)) * correlation\<close>, taken as zero
  when the intervention variable is not a column or the correlation is NaN, and the
  intervened value is the original value plus the effect.
\<close>

theorem intervention_effects:
  assumes "q_intervention_variable q = Some iv"
    and "q_intervention_value q = Some x"
    and "q_outcome_variables q = Some ovs"
    and "cm_data cm = Some data"
    and "rows data \<noteq> []"
    and "ov \<in> set ovs" and "ov \<in> set (columns data)"
  shows "\<exists>res. handle_intervention q cm = Intervention res \<and> success (Intervention res) \<and>
           map_of (ir_intervention_effects res) ov =
             Some \<lparr>ie_original_value = Some (avg (col ov (rows data))),
                   ie_intervened_value =
                     Some (avg (col ov (rows data)) + intervention_effect_of data iv x ov),
                   ie_effect = Some (intervention_effect_of data iv x ov)\<rparr>"
proof -
  from intervention_entry [OF assms(1-4)] obtain res where
    res: "handle_intervention q cm = Intervention res"
      "\<forall>k. map_of (ir_intervention_effects res) k =
              (if k \<in> set ovs \<and> k \<in> set (columns data)
               then Some \<lparr>ie_original_value = mean (col k (rows data)),
                          ie_intervened_value =
                            intervened_outcome data iv x k (mean (col k (rows data))),
                          ie_effect = fsub (intervened_outcome data iv x k (mean (col k (rows data))))
                                        (mean (col k (rows data)))\<rparr>
               else None)"
    by blast
  have m: "mean (col ov (rows data)) = Some (avg (col ov (rows data)))"
    using assms(5) by (simp add: mean_def col_def)
  from res(2) assms(6,7) have "map_of (ir_intervention_effects res) ov =
      Some \<lparr>ie_original_value = mean (col ov (rows data)),
            ie_intervened_value = intervened_outcome data iv x ov (mean (col ov (rows data))),
            ie_effect = fsub (intervened_outcome data iv x ov (mean (col ov (rows data))))
                          (mean (col ov (rows data)))\<rparr>"
    by simp
  then have "map_of (ir_intervention_effects res) ov =
             Some \<lparr>ie_original_value = Some (avg (col ov (rows data))),
                   ie_intervened_value =
                     Some (avg (col ov (rows data)) + intervention_effect_of data iv x ov),
                   ie_effect = Some (intervention_effect_of data iv x ov)\<rparr>"
    by (simp only: intervened_outcome_nonempty [OF assms(5)]) (simp add: m fsub_def)
  with res(1) show ?thesis by simp
qed

theorem intervention_effects_witness:
  "q_intervention_variable intervention_query = Some ''T'' \<and>
   q_intervention_value intervention_query = Some 3 \<and>
   q_outcome_variables intervention_query = Some [''Y'', ''Z''] \<and>
   cm_data loaded_model = Some table_XTY \<and> rows table_XTY \<noteq> [] \<and>
   ''Y'' \<in> set [''Y'', ''Z''] \<and> ''Y'' \<in> set (columns table_XTY) \<and>
   (\<exists>res. handle_intervention intervention_query loaded_model = Intervention res \<and>
      success (Intervention res) \<and>
      map_of (ir_intervention_effects res) ''Y'' =
        Some \<lparr>ie_original_value = Some 2, ie_intervened_value = Some (9 / 2),
              ie_effect = Some (5 / 2)\<rparr>)"
proof -
  have q: "q_intervention_variable intervention_query = Some ''T''"
      "q_intervention_value intervention_query = Some 3"
      "q_outcome_variables intervention_query = Some [''Y'', ''Z'']"
    by (simp_all add: intervention_query_def)
  have d: "cm_data loaded_model = Some table_XTY" by (simp add: loaded_model_def)
  have r: "rows table_XTY \<noteq> []" by (simp add: table_XTY_def)
  have m: "''Y'' \<in> set [''Y'', ''Z'']" by simp
  have c: "''Y'' \<in> set (columns table_XTY)" by (simp add: table_XTY_def)
  have cy: "col ''Y'' (rows table_XTY) = [1, 3]" and ct: "col ''T'' (rows table_XTY) = [0, 1]"
    by (simp_all add: col_def table_XTY_def)
  have a: "avg (col ''Y'' (rows table_XTY)) = 2" by (simp add: cy avg_def)
  have k: "corr [0, 1] [1, 3] = Some 1" by (simp add: corr_def avg_def Let_def power2_eq_square)
  have e: "intervention_effect_of table_XTY ''T'' 3 ''Y'' = 5 / 2"
    by (simp add: intervention_effect_of_def cy ct k avg_def) (simp add: table_XTY_def)
  from intervention_effects [OF q d r m c]
  have "\<exists>res. handle_intervention intervention_query loaded_model = Intervention res \<and>
      success (Intervention res) \<and>
      map_of (ir_intervention_effects res) ''Y'' =
        Some \<lparr>ie_original_value = Some 2, ie_intervened_value = Some (9 / 2),
              ie_effect = Some (5 / 2)\<rparr>"
    by (simp add: a e)
  with q d r m c show ?thesis by blast
qed

text \<open>
  C6, the code on a table without rows (a data file with its header only). The requested
  outcome \<open>Y\<close> is a column and the correlation is NaN, so the effect should be zero;
  the handler succeeds, but the mean of the outcome column is NaN, the intervened value
  is set to it, and the effect, computed as intervened minus original, is NaN. On every
  table with at least one row the handler does what C6 says (\<open>intervention_effects\<close>
  above).
\<close>

theorem intervention_empty_table_nan_effect:
  "q_outcome_variables intervention_query = Some [''Y'', ''Z''] \<and>
   cm_data empty_model = Some empty_table \<and> ''Y'' \<in> set (columns empty_table) \<and>
   corr (col ''T'' (rows empty_table)) (col ''Y'' (rows empty_table)) = None \<and>
   handle_intervention intervention_query empty_model =
     Intervention
       \<lparr>ir_intervention_variable = ''T'', ir_intervention_value = 3,
        ir_intervention_effects =
          [(''Y'', \<lparr>ie_original_value = None, ie_intervened_value = None, ie_effect = None\<rparr>)],
        ir_summary = [Txt ''Intervening on '', Txt ''T'', Txt '' to '', Num (Some 3),
                      Txt '' affects '', Cnt 1, Txt '' outcomes'']\<rparr>"
  by (simp add: intervention_query_def unknown_query_def empty_model_def empty_table_def
      triangle_model_def handle_intervention_def fail_soft_def intervention_body_def required_def
      the_data_def Let_def col_def mean_def corr_def intervened_outcome_def isnan_def fsub_def)

section \<open>The counterfactual filter\<close>

lemma keep_close_filter: "keep_close var val rs = filter (within_one_std rs var val) rs"
proof (cases "std (col var rs)")
  case None
  then have "within_one_std rs var val = (\<lambda>r. False)"
    by (simp add: fun_eq_iff within_one_std_def)
  with None show ?thesis by (simp add: keep_close_def)
next
  case (Some s)
  then have "within_one_std rs var val = (\<lambda>r. \<bar>r var - val\<bar> \<le> s)"
    by (simp add: fun_eq_iff within_one_std_def)
  with Some show ?thesis by (simp add: keep_close_def)
qed

lemma filter_loop_snoc:
  "filter_loop data (scen @ [(var, val)]) rs =
     (if var \<in> set (columns data) then keep_close var val (filter_loop data scen rs)
      else filter_loop data scen rs)"
  by (induction scen arbitrary: rs) auto

lemma passes_filters_snoc:
  "passes_filters data (scen @ [e]) r \<longleftrightarrow>
     passes_filters data scen r \<and>
     (fst e \<in> set (columns data) \<longrightarrow>
        within_one_std (filter_loop data scen (rows data)) (fst e) (snd e) r)"
  by (auto simp: passes_filters_def less_Suc_eq nth_append)

lemma filter_loop_passes:
  "filter_loop data scen (rows data) = filter (passes_filters data scen) (rows data)"
proof (induction scen rule: rev_induct)
  case Nil
  then show ?case by (simp add: passes_filters_def)
next
  case (snoc e scen)
  obtain var val where e: "e = (var, val)" by (cases e)
  let ?prev = "filter_loop data scen (rows data)"
  have "filter (within_one_std ?prev var val) ?prev =
          filter (\<lambda>r. passes_filters data scen r \<and> within_one_std ?prev var val r) (rows data)"
    by (subst (2) snoc.IH) (simp add: conj_commute)
  then show ?case
    by (simp add: e filter_loop_snoc keep_close_filter passes_filters_snoc snoc.IH [symmetric])
qed

text \<open>
  C3 (amended). For a counterfactual query with its three required fields, on a table that
  has the outcome column: the handler applies one filter per factual-scenario variable
  that is a column, in the order of the scenario; the filter of a variable keeps the
  rows within one sample standard deviation of the declared value, the deviation being
  that of the variable's column over the rows left by the filters before it (a NaN
  deviation keeps no row); a row is kept when it passes every one of these filters; when
  no row is kept the whole table is used; and the factual outcome is the mean of the
  outcome column over the rows kept.
\<close>

theorem counterfactual_factual_outcome:
  assumes "q_factual_scenario q = Some factual"
    and "q_counterfactual_scenario q = Some counterfactual"
    and "q_outcome_variable q = Some outcome_var"
    and "cm_data cm = Some data"
    and "outcome_var \<in> set (columns data)"
  shows "filter_loop data factual (rows data) = filter (passes_filters data factual) (rows data) \<and>
         (\<exists>res. handle_counterfactual q cm = Counterfactual res \<and>
            cr_factual_outcome res =
              mean (col outcome_var
                (if filter (passes_filters data factual) (rows data) = [] then rows data
                 else filter (passes_filters data factual) (rows data))))"
  using assms
  by (simp add: filter_loop_passes [symmetric] handle_counterfactual_def fail_soft_def
        counterfactual_body_def required_def the_data_def Let_def)

lemma abs_le_sqrt_iff: "0 \<le> v \<Longrightarrow> \<bar>d\<bar> \<le> sqrt v \<longleftrightarrow> d\<^sup>2 \<le> v"
proof -
  assume v: "0 \<le> v"
  have "\<bar>d\<bar> = sqrt (d\<^sup>2)" by simp
  then have "\<bar>d\<bar> \<le> sqrt v \<longleftrightarrow> sqrt (d\<^sup>2) \<le> sqrt v" by simp
  also have "\<dots> \<longleftrightarrow> d\<^sup>2 \<le> v" by (rule real_sqrt_le_iff)
  finally show ?thesis .
qed

lemma std_A: "std [0, 4, 8] = Some (sqrt 16)"
  by (simp add: std_def avg_def)

lemma std_B2: "std [0, 3] = Some (sqrt (9 / 2))"
  by (simp add: std_def avg_def power2_eq_square)

lemma std_B3: "std [0, 3, 9] = Some (sqrt 21)"
  by (simp add: std_def avg_def)

lemma keep_A:
  "keep_close ''A'' 0 [row_ABY 0 0 10, row_ABY 4 3 20, row_ABY 8 9 30] =
     [row_ABY 0 0 10, row_ABY 4 3 20]"
  by (simp add: keep_close_def col_def row_ABY_def std_A abs_le_sqrt_iff)

lemma keep_B:
  "keep_close ''B'' 0 [row_ABY 0 0 10, row_ABY 4 3 20] = [row_ABY 0 0 10]"
  by (simp add: keep_close_def col_def row_ABY_def std_B2 abs_le_sqrt_iff)

lemma filter_loop_ABY:
  "filter_loop table_ABY [(''A'', 0), (''B'', 0)] (rows table_ABY) = [row_ABY 0 0 10]"
  by (simp add: table_ABY_def keep_A keep_B)

lemma intersection_ABY:
  "intersection_filter table_ABY [(''A'', 0), (''B'', 0)] = [row_ABY 0 0 10, row_ABY 4 3 20]"
  by (simp add: intersection_filter_def table_ABY_def within_one_std_def col_def row_ABY_def
        std_A std_B3 abs_le_sqrt_iff)

text \<open>
  C3 as stated fails: with the deviations taken over the table, the rows within one
  deviation of \<open>A = 0\<close> and of \<open>B = 0\<close> are the first two, whose outcome mean is 15; the
  handler takes the deviation of \<open>B\<close> over the rows that the filter on \<open>A\<close> left, keeps
  the first row only, and reports 10.
\<close>

theorem counterfactual_filter_counterexample:
  "handle_counterfactual counterfactual_query model_ABY =
     Counterfactual
       \<lparr>cr_factual_scenario = [(''A'', 0), (''B'', 0)],
        cr_counterfactual_scenario = [],
        cr_outcome_variable = ''Y'',
        cr_factual_outcome = Some 10,
        cr_counterfactual_outcome = Some 10,
        cr_counterfactual_effect = Some 0,
        cr_summary = [Txt ''Counterfactual effect on '', Txt ''Y'', Txt '': '', Num (Some 0)]\<rparr>
   \<and> mean (col ''Y'' (intersection_filter table_ABY [(''A'', 0), (''B'', 0)])) = Some 15"
proof -
  have q: "q_factual_scenario counterfactual_query = Some [(''A'', 0), (''B'', 0)]"
      "q_counterfactual_scenario counterfactual_query = Some []"
      "q_outcome_variable counterfactual_query = Some ''Y''"
    by (simp_all add: counterfactual_query_def)
  have d: "cm_data model_ABY = Some table_ABY" by (simp add: model_ABY_def)
  have c: "''Y'' \<in> set (columns table_ABY)" by (simp add: table_ABY_def)
  have m: "mean (col ''Y'' [row_ABY 0 0 10]) = Some 10"
    by (simp add: mean_def avg_def col_def row_ABY_def)
  have 1: "handle_counterfactual counterfactual_query model_ABY =
     Counterfactual
       \<lparr>cr_factual_scenario = [(''A'', 0), (''B'', 0)],
        cr_counterfactual_scenario = [],
        cr_outcome_variable = ''Y'',
        cr_factual_outcome = Some 10,
        cr_counterfactual_outcome = Some 10,
        cr_counterfactual_effect = Some 0,
        cr_summary = [Txt ''Counterfactual effect on '', Txt ''Y'', Txt '': '', Num (Some 0)]\<rparr>"
    by (simp add: handle_counterfactual_def fail_soft_def counterfactual_body_def required_def
          the_data_def q d c filter_loop_ABY m fadd_def fsub_def Let_def
          del: filter_loop.simps)
  have 2: "mean (col ''Y'' (intersection_filter table_ABY [(''A'', 0), (''B'', 0)])) = Some 15"
    by (simp add: intersection_ABY mean_def avg_def col_def row_ABY_def)
  from 1 2 show ?thesis by (rule conjI)
qed

theorem counterfactual_factual_outcome_witness:
  "q_factual_scenario counterfactual_query = Some [(''A'', 0), (''B'', 0)] \<and>
   q_counterfactual_scenario counterfactual_query = Some [] \<and>
   q_outcome_variable counterfactual_query = Some ''Y'' \<and>
   cm_data model_ABY = Some table_ABY \<and> ''Y'' \<in> set (columns table_ABY) \<and>
   filter (passes_filters table_ABY [(''A'', 0), (''B'', 0)]) (rows table_ABY) = [row_ABY 0 0 10] \<and>
   (\<exists>res. handle_counterfactual counterfactual_query model_ABY = Counterfactual res \<and>
      cr_factual_outcome res = Some 10)"
proof -
  have q: "q_factual_scenario counterfactual_query = Some [(''A'', 0), (''B'', 0)]"
      "q_counterfactual_scenario counterfactual_query = Some []"
      "q_outcome_variable counterfactual_query = Some ''Y''"
    by (simp_all add: counterfactual_query_def)
  have d: "cm_data model_ABY = Some table_ABY" by (simp add: model_ABY_def)
  have c: "''Y'' \<in> set (columns table_ABY)" by (simp add: table_ABY_def)
  have m: "mean (col ''Y'' [row_ABY 0 0 10]) = Some 10"
    by (simp add: mean_def avg_def col_def row_ABY_def)
  note inst = counterfactual_factual_outcome [OF q d c]
  from inst have "filter_loop table_ABY [(''A'', 0), (''B'', 0)] (rows table_ABY) =
      filter (passes_filters table_ABY [(''A'', 0), (''B'', 0)]) (rows table_ABY)"
    by (rule conjunct1)
  then have f: "filter (passes_filters table_ABY [(''A'', 0), (''B'', 0)]) (rows table_ABY)
      = [row_ABY 0 0 10]"
    by (simp only: filter_loop_ABY)
  from inst have "\<exists>res. handle_counterfactual counterfactual_query model_ABY = Counterfactual res \<and>
      cr_factual_outcome res =
        mean (col ''Y''
          (if filter (passes_filters table_ABY [(''A'', 0), (''B'', 0)]) (rows table_ABY) = []
           then rows table_ABY
           else filter (passes_filters table_ABY [(''A'', 0), (''B'', 0)]) (rows table_ABY)))"
    by (rule conjunct2)
  then have "\<exists>res. handle_counterfactual counterfactual_query model_ABY = Counterfactual res \<and>
      cr_factual_outcome res = Some 10"
    by (simp only: f m list.simps if_False)
  with q d c f show ?thesis by blast
qed

section \<open>Absent variables and NaN means in the attribution handlers\<close>

text \<open>
  C4, the code at two inputs. An anomaly attribution query whose only potential cause is
  not a column, on a table with a row above the threshold: the attribution map stays
  empty, the summary takes \<open>max\<close> over no keys, and the handler returns
  \<open>success = False\<close>. A distribution shift query on a table with one row: the baseline
  half has no rows, and the handler succeeds with NaN as baseline mean, as shift
  magnitude and as the driver's baseline mean and shift.
\<close>

theorem absent_cause_fails_and_nan_mean_reported:
  "handle_anomaly_attribution absent_cause_query loaded_model =
     Failure (Some ''anomaly_attribution'') ''max() arg is an empty sequence''
   \<and> handle_distribution_shift_attribution shift_query one_row_model =
     Shift
       \<lparr>sr_target_variable = ''Y'',
        sr_baseline_mean = None,
        sr_comparison_mean = Some 3,
        sr_shift_magnitude = None,
        sr_driver_contributions =
          [(''T'', \<lparr>dc_baseline_mean = None, dc_comparison_mean = Some 1, dc_shift = None,
                   dc_correlation_with_target = 0, dc_estimated_contribution = Some 0\<rparr>)],
        sr_summary = [Txt ''Distribution shift of '', Num None, Txt '' in '', Txt ''Y'',
                      Txt ''. Main driver: '', Txt ''T'']\<rparr>"
proof
  have y: "col ''Y'' (rows table_XTY) = [1, 3]" by (simp add: col_def table_XTY_def)
  show "handle_anomaly_attribution absent_cause_query loaded_model =
     Failure (Some ''anomaly_attribution'') ''max() arg is an empty sequence''"
    by (simp add: handle_anomaly_attribution_def fail_soft_def anomaly_attribution_body_def
          required_def the_data_def absent_cause_query_def unknown_query_def loaded_model_def
          getitem_def y attribution_loop_def py_max_def Let_def)
       (simp add: table_XTY_def)
next
  show "handle_distribution_shift_attribution shift_query one_row_model =
     Shift
       \<lparr>sr_target_variable = ''Y'',
        sr_baseline_mean = None,
        sr_comparison_mean = Some 3,
        sr_shift_magnitude = None,
        sr_driver_contributions =
          [(''T'', \<lparr>dc_baseline_mean = None, dc_comparison_mean = Some 1, dc_shift = None,
                   dc_correlation_with_target = 0, dc_estimated_contribution = Some 0\<rparr>)],
        sr_summary = [Txt ''Distribution shift of '', Num None, Txt '' in '', Txt ''Y'',
                      Txt ''. Main driver: '', Txt ''T'']\<rparr>"
    by (simp add: handle_distribution_shift_attribution_def fail_soft_def
          distribution_shift_body_def required_def the_data_def shift_query_def unknown_query_def
          one_row_model_def one_row_table_def driver_loop_def driver_entry_def py_max_def
          col_def mean_def avg_def corr_def isnan_def fsub_def fmul_def fabs_def Let_def)
qed

end
